theory Spec2Isabelle
  imports Complex_Main "HOL-Library.Word" "HOL-Library.Stream"
begin

section \<open>Data model\<close>

subsection \<open>Machine integers, durations and time\<close>

text \<open>
  Go's \<open>int\<close> (on the 64-bit targets the simulator is built for) and \<open>time.Duration\<close>
  (an \<open>int64\<close> count of nanoseconds) are 64-bit words, so that
  \<open>time.Duration(n) * time.Second\<close> wraps as it does in Go. A \<open>metav1.Time\<close> and the
  result of \<open>time.Now().UTC().Unix()\<close> are plain integers supplied by the caller of the
  model, one for every clock read of the source.
\<close>

type_synonym int64 = "64 word"
type_synonym Duration = "64 word"
type_synonym Time = int

definition Second :: Duration where
  "Second = 1000000000"

definition seconds :: "int64 \<Rightarrow> Duration" where
  "seconds n = n * Second"

subsection \<open>pkg/config/config.go\<close>

record ConditionConfig =
  ccType :: string
  ccStatus :: string
  ccReason :: string
  ccMessage :: string

record StateConfig =
  Name :: string
  DurationSeconds :: int64
  Conditions :: "ConditionConfig list"

text \<open>
  \<open>Probability\<close> is a \<open>float64\<close> that the engine only compares (with \<open>0\<close> and with a
  sample); every finite \<open>float64\<close> is a rational number and the comparisons are exact,
  so the field is a \<open>rat\<close>.
\<close>

record FailureScenario =
  Probability :: rat
  fsCondition :: string
  fsMessage :: string
  fsReason :: string

record ClusterDeploymentConfig =
  cdDefaultDelaySeconds :: int64
  cdStates :: "StateConfig list"
  cdFailureScenarios :: "FailureScenario list"
  DependsOnAccountClaim :: bool
  DependsOnProjectClaim :: bool

record AccountClaimConfig =
  acDefaultDelaySeconds :: int64
  acStates :: "StateConfig list"
  acFailureScenarios :: "FailureScenario list"

record ProjectClaimConfig =
  pcDefaultDelaySeconds :: int64
  pcStates :: "StateConfig list"
  pcFailureScenarios :: "FailureScenario list"

text \<open>The three sub-configurations are pointers in \<open>Config\<close>: \<open>None\<close> is \<open>nil\<close>.\<close>

record Config =
  cfgClusterDeployment :: "ClusterDeploymentConfig option"
  cfgAccountClaim :: "AccountClaimConfig option"
  cfgProjectClaim :: "ProjectClaimConfig option"

record ResourceOverride =
  ResourceName :: string
  DelaySeconds :: "int64 option"
  ForceFail :: "FailureScenario option"
  ForceSuccess :: bool

definition DefaultClusterDeploymentConfig :: ClusterDeploymentConfig where
  "DefaultClusterDeploymentConfig =
     \<lparr>cdDefaultDelaySeconds = 5,
      cdStates =
        [\<lparr>Name = ''Pending'', DurationSeconds = 1, Conditions = []\<rparr>,
         \<lparr>Name = ''Provisioning'', DurationSeconds = 2, Conditions =
            [\<lparr>ccType = ''DeprovisionLaunchError'', ccStatus = ''False'',
              ccReason = ''Provisioning'', ccMessage = ''Cluster is provisioning''\<rparr>]\<rparr>,
         \<lparr>Name = ''Installing'', DurationSeconds = 1, Conditions =
            [\<lparr>ccType = ''DNSNotReady'', ccStatus = ''False'',
              ccReason = ''DNSReady'', ccMessage = ''DNS is ready''\<rparr>]\<rparr>,
         \<lparr>Name = ''Running'', DurationSeconds = 1, Conditions =
            [\<lparr>ccType = ''ClusterDeploymentCompleted'', ccStatus = ''True'',
              ccReason = ''ClusterDeploymentCompleted'',
              ccMessage = ''Cluster deployment is complete''\<rparr>]\<rparr>],
      cdFailureScenarios = [],
      DependsOnAccountClaim = True,
      DependsOnProjectClaim = True\<rparr>"

definition DefaultAccountClaimConfig :: AccountClaimConfig where
  "DefaultAccountClaimConfig =
     \<lparr>acDefaultDelaySeconds = 3,
      acStates =
        [\<lparr>Name = ''Pending'', DurationSeconds = 2, Conditions = []\<rparr>,
         \<lparr>Name = ''Ready'', DurationSeconds = 1, Conditions = []\<rparr>],
      acFailureScenarios = []\<rparr>"

definition DefaultProjectClaimConfig :: ProjectClaimConfig where
  "DefaultProjectClaimConfig =
     \<lparr>pcDefaultDelaySeconds = 4,
      pcStates =
        [\<lparr>Name = ''Pending'', DurationSeconds = 1, Conditions = []\<rparr>,
         \<lparr>Name = ''PendingProject'', DurationSeconds = 2, Conditions = []\<rparr>,
         \<lparr>Name = ''Ready'', DurationSeconds = 1, Conditions = []\<rparr>],
      pcFailureScenarios = []\<rparr>"

subsection \<open>Resources\<close>

text \<open>
  \<open>corev1.ConditionStatus\<close> is a string type of Kubernetes with the three constants
  below; a stored condition may carry any string.
\<close>

definition ConditionTrue :: string where
  "ConditionTrue = ''True''"

definition ConditionFalse :: string where
  "ConditionFalse = ''False''"

definition ConditionUnknown :: string where
  "ConditionUnknown = ''Unknown''"

text \<open>
  One record serves for \<open>hivev1.ClusterDeploymentCondition\<close>,
  \<open>aaov1alpha1.AccountClaimCondition\<close> and \<open>gcpv1alpha1.Condition\<close>: the state machines
  fill the same six fields of each.
\<close>

record Condition =
  condType :: string
  condStatus :: string
  condReason :: string
  condMessage :: string
  LastTransitionTime :: Time
  LastProbeTime :: Time

record ClusterMetadata =
  ClusterID :: string
  InfraID :: string

text \<open>
  The fields of a \<open>hivev1.ClusterDeployment\<close> that the simulator reads or writes.
  \<open>ProvisionRef\<close> is a pointer to a \<open>LocalObjectReference\<close>, kept as its optional name.
\<close>

record ClusterDeployment =
  cdName :: string
  cdNamespace :: string
  cdLabels :: "string \<rightharpoonup> string"
  Installed :: bool
  cdClusterMetadata :: "ClusterMetadata option"
  cdConditions :: "Condition list"
  ProvisionRef :: "string option"
  WebConsoleURL :: string
  APIURL :: string
  InstalledTimestamp :: "Time option"

record AccountClaim =
  acName :: string
  acNamespace :: string
  acLabels :: "string \<rightharpoonup> string"
  BYOCAWSAccountID :: string
  acState :: string
  acConditions :: "Condition list"

record ProjectClaim =
  pcName :: string
  pcNamespace :: string
  pcLabels :: "string \<rightharpoonup> string"
  GCPProjectID :: string
  pcState :: string
  pcConditions :: "Condition list"

text \<open>
  Modelled from the spec: the \<open>ClaimStatus\<close> constants of the packages
  \<open>externalapis/aws-account-operator/v1alpha1\<close> and
  \<open>externalapis/gcp-project-operator/v1alpha1\<close> and the condition types of the former are
  not under src/. The spec names the claim states \<open>Pending\<close>, \<open>PendingProject\<close> and
  \<open>Ready\<close> and an error state; the condition types take the names of their Go constants.
\<close>

definition ClaimStatusPending :: string where
  "ClaimStatusPending = ''Pending''"

definition ClaimStatusPendingProject :: string where
  "ClaimStatusPendingProject = ''PendingProject''"

definition ClaimStatusReady :: string where
  "ClaimStatusReady = ''Ready''"

definition ClaimStatusError :: string where
  "ClaimStatusError = ''Error''"

definition AccountUnclaimed :: string where
  "AccountUnclaimed = ''AccountUnclaimed''"

definition AccountClaimed :: string where
  "AccountClaimed = ''AccountClaimed''"

definition AccountClaimFailed :: string where
  "AccountClaimFailed = ''AccountClaimFailed''"

section \<open>pkg/state_machine: ClusterDeployment\<close>

text \<open>
  The loop over \<open>cd.Status.Conditions\<close> of \<open>getCurrentState\<close>: the first condition
  that decides a state ends the loop; \<open>None\<close> is the loop running to its end.
\<close>

fun getCurrentState_conditions :: "Condition list \<Rightarrow> string option" where
  "getCurrentState_conditions [] = None"
| "getCurrentState_conditions (c # cs) =
     (if condType c = ''ClusterDeploymentCompleted'' then
        (if condStatus c = ConditionTrue then Some ''Running''
         else getCurrentState_conditions cs)
      else if condType c = ''DNSNotReady'' then
        (if condStatus c = ConditionFalse then Some ''Installing''
         else getCurrentState_conditions cs)
      else if condType c = ''DeprovisionLaunchError'' then
        (if condStatus c = ConditionFalse then Some ''Provisioning''
         else getCurrentState_conditions cs)
      else getCurrentState_conditions cs)"

definition getCurrentState :: "ClusterDeployment \<Rightarrow> string" where
  "getCurrentState cd =
     (if Installed cd then ''Running''
      else case getCurrentState_conditions (cdConditions cd) of
        Some s \<Rightarrow> s
      | None \<Rightarrow> (if ProvisionRef cd \<noteq> None then ''Provisioning'' else ''Pending''))"

text \<open>
  The \<open>for i, state := range sm.config.States\<close> loop of \<open>GetNextState\<close>, from index
  \<open>i\<close>; \<open>None\<close> is the loop ending without a \<open>return\<close>.
\<close>

function cd_GetNextState_loop ::
  "StateConfig list \<Rightarrow> string \<Rightarrow> nat \<Rightarrow> (string \<times> Duration) option" where
  "cd_GetNextState_loop states currentState i =
     (if i < length states then
        (if Name (states ! i) = currentState then
           (if i \<ge> length states - 1 then Some (currentState, 0)
            else Some (Name (states ! (i + 1)),
                       seconds (DurationSeconds (states ! (i + 1)))))
         else cd_GetNextState_loop states currentState (i + 1))
      else None)"
  by pat_completeness auto
termination
  by (relation "measure (\<lambda>(states, currentState, i). length states - i)") auto

declare cd_GetNextState_loop.simps [simp del]

definition cd_GetNextState ::
  "ClusterDeploymentConfig \<Rightarrow> ClusterDeployment \<Rightarrow> string \<times> Duration" where
  "cd_GetNextState cfg cd =
     (let currentState = getCurrentState cd in
      case cd_GetNextState_loop (cdStates cfg) currentState 0 of
        Some r \<Rightarrow> r
      | None \<Rightarrow>
          (if length (cdStates cfg) > 0 then
             (Name (cdStates cfg ! 0), seconds (DurationSeconds (cdStates cfg ! 0)))
           else (''Pending'', 5 * Second)))"

datatype error = StateNotFound string | StoreUnavailable

text \<open>
  The lookup loop of \<open>ApplyState\<close>: the first entry of the sequence with the given
  name, \<open>None\<close> for \<open>stateConfig == nil\<close>.
\<close>

fun findStateConfig :: "StateConfig list \<Rightarrow> string \<Rightarrow> StateConfig option" where
  "findStateConfig [] state = None"
| "findStateConfig (s # rest) state =
     (if Name s = state then Some s else findStateConfig rest state)"

definition buildCondition :: "Time \<Rightarrow> ConditionConfig \<Rightarrow> Condition" where
  "buildCondition now condConfig =
     \<lparr>condType = ccType condConfig,
      condStatus =
        (if ccStatus condConfig = ''True'' then ConditionTrue
         else if ccStatus condConfig = ''False'' then ConditionFalse
         else ConditionUnknown),
      condReason = ccReason condConfig,
      condMessage = ccMessage condConfig,
      LastTransitionTime = now,
      LastProbeTime = now\<rparr>"

definition buildConditions :: "StateConfig \<Rightarrow> Time \<Rightarrow> Condition list" where
  "buildConditions stateConfig now = map (buildCondition now) (Conditions stateConfig)"

definition webConsoleURL :: "string \<Rightarrow> string" where
  "webConsoleURL name = ''https://console-openshift-console.apps.'' @ name @ ''.example.com''"

definition apiURL :: "string \<Rightarrow> string" where
  "apiURL name = ''https://api.'' @ name @ ''.example.com:6443''"

text \<open>
  \<open>ApplyState\<close> works on the resource through a pointer: the model returns the resource
  as the call leaves it, together with the error (\<open>None\<close> for \<open>nil\<close>). \<open>now\<close> is
  the value of \<open>metav1.Now()\<close>.
\<close>

definition cd_ApplyState ::
  "ClusterDeploymentConfig \<Rightarrow> Time \<Rightarrow> ClusterDeployment \<Rightarrow> string \<Rightarrow>
   ClusterDeployment \<times> error option" where
  "cd_ApplyState cfg now cd state =
     (case findStateConfig (cdStates cfg) state of
        None \<Rightarrow> (cd, Some (StateNotFound state))
      | Some stateConfig \<Rightarrow>
          (let cd1 = cd\<lparr>cdConditions := buildConditions stateConfig now\<rparr> in
           if state = ''Provisioning'' then
             (cd1\<lparr>ProvisionRef := Some (cdName cd @ ''-provision'')\<rparr>, None)
           else if state = ''Installing'' then
             (cd1\<lparr>WebConsoleURL := webConsoleURL (cdName cd),
                  APIURL := apiURL (cdName cd)\<rparr>, None)
           else if state = ''Running'' then
             (let md = (case cdClusterMetadata cd1 of
                          None \<Rightarrow> \<lparr>ClusterID = [], InfraID = []\<rparr>
                        | Some m \<Rightarrow> m) in
              (cd1\<lparr>Installed := True,
                   InstalledTimestamp := Some now,
                   cdClusterMetadata := Some (md\<lparr>InfraID := cdName cd @ ''-infra''\<rparr>),
                   WebConsoleURL := webConsoleURL (cdName cd),
                   APIURL := apiURL (cdName cd)\<rparr>, None))
           else (cd1, None)))"

section \<open>pkg/state_machine: AccountClaim\<close>

function ac_GetNextState_loop ::
  "StateConfig list \<Rightarrow> string \<Rightarrow> nat \<Rightarrow> (string \<times> Duration) option" where
  "ac_GetNextState_loop states currentState i =
     (if i < length states then
        (if currentState = Name (states ! i)
            \<or> (currentState = [] \<and> Name (states ! i) = ''Pending'') then
           (if i \<ge> length states - 1 then Some (Name (states ! i), 0)
            else Some (Name (states ! (i + 1)),
                       seconds (DurationSeconds (states ! (i + 1)))))
         else ac_GetNextState_loop states currentState (i + 1))
      else None)"
  by pat_completeness auto
termination
  by (relation "measure (\<lambda>(states, currentState, i). length states - i)") auto

declare ac_GetNextState_loop.simps [simp del]

definition ac_GetNextState ::
  "AccountClaimConfig \<Rightarrow> AccountClaim \<Rightarrow> string \<times> Duration" where
  "ac_GetNextState cfg ac =
     (let currentState = acState ac in
      case ac_GetNextState_loop (acStates cfg) currentState 0 of
        Some r \<Rightarrow> r
      | None \<Rightarrow>
          (if length (acStates cfg) > 0 then
             (Name (acStates cfg ! 0), seconds (DurationSeconds (acStates cfg ! 0)))
           else (ClaimStatusPending, 3 * Second)))"

subsection \<open>Formatting of the synthesized identifiers\<close>

text \<open>
  \<open>fmt.Sprintf\<close> with \<open>%d\<close> and \<open>%03d\<close> on an \<open>int64\<close>, and Go's remainder, which
  truncates towards zero.
\<close>

fun fmt_nat :: "nat \<Rightarrow> string" where
  "fmt_nat n =
     (if n < 10 then [''0123456789'' ! n]
      else fmt_nat (n div 10) @ [''0123456789'' ! (n mod 10)])"

declare fmt_nat.simps [simp del]

definition fmt_d :: "int \<Rightarrow> string" where
  "fmt_d i = (if i < 0 then ''-'' @ fmt_nat (nat (- i)) else fmt_nat (nat i))"

definition fmt_03d :: "int \<Rightarrow> string" where
  "fmt_03d i =
     (let ds = fmt_nat (nat \<bar>i\<bar>) in
      if i < 0 then ''-'' @ replicate (2 - length ds) (CHR ''0'') @ ds
      else replicate (3 - length ds) (CHR ''0'') @ ds)"

definition go_rem :: "int \<Rightarrow> int \<Rightarrow> int" where
  "go_rem a b = sgn a * (\<bar>a\<bar> mod \<bar>b\<bar>)"

text \<open>
  \<open>ApplyState\<close> of the AccountClaim machine never reads \<open>sm.config\<close>; the receiver is
  kept as the first argument. \<open>unix\<close> is the value of \<open>time.Now().UTC().Unix()\<close>.
\<close>

definition ac_ApplyState ::
  "AccountClaimConfig \<Rightarrow> Time \<Rightarrow> int \<Rightarrow> AccountClaim \<Rightarrow> string \<Rightarrow>
   AccountClaim \<times> error option" where
  "ac_ApplyState cfg now unix ac state =
     (let ac1 = ac\<lparr>acState := state\<rparr> in
      if state = ClaimStatusPending then
        (ac1\<lparr>acConditions :=
               [\<lparr>condType = AccountUnclaimed, condStatus = ConditionTrue,
                 condReason = ''AccountPending'',
                 condMessage = ''Account claim is pending'',
                 LastTransitionTime = now, LastProbeTime = now\<rparr>]\<rparr>, None)
      else if state = ClaimStatusReady then
        (let ac2 = ac1\<lparr>acConditions :=
               [\<lparr>condType = AccountClaimed, condStatus = ConditionTrue,
                 condReason = ''AccountClaimed'',
                 condMessage = ''Account has been claimed'',
                 LastTransitionTime = now, LastProbeTime = now\<rparr>]\<rparr> in
         if BYOCAWSAccountID ac2 = [] then
           (ac2\<lparr>BYOCAWSAccountID := ''123456789'' @ fmt_03d (go_rem unix 1000)\<rparr>, None)
         else (ac2, None))
      else if state = ClaimStatusError then
        (ac1\<lparr>acConditions :=
               [\<lparr>condType = AccountClaimFailed, condStatus = ConditionTrue,
                 condReason = ''ClaimFailed'',
                 condMessage = ''Account claim failed'',
                 LastTransitionTime = now, LastProbeTime = now\<rparr>]\<rparr>, None)
      else (ac1, None))"

section \<open>pkg/state_machine: ProjectClaim\<close>

function pc_GetNextState_loop ::
  "StateConfig list \<Rightarrow> string \<Rightarrow> nat \<Rightarrow> (string \<times> Duration) option" where
  "pc_GetNextState_loop states currentState i =
     (if i < length states then
        (if currentState = Name (states ! i)
            \<or> (currentState = [] \<and> Name (states ! i) = ''Pending'') then
           (if i \<ge> length states - 1 then Some (Name (states ! i), 0)
            else Some (Name (states ! (i + 1)),
                       seconds (DurationSeconds (states ! (i + 1)))))
         else pc_GetNextState_loop states currentState (i + 1))
      else None)"
  by pat_completeness auto
termination
  by (relation "measure (\<lambda>(states, currentState, i). length states - i)") auto

declare pc_GetNextState_loop.simps [simp del]

definition pc_GetNextState ::
  "ProjectClaimConfig \<Rightarrow> ProjectClaim \<Rightarrow> string \<times> Duration" where
  "pc_GetNextState cfg pc =
     (let currentState = pcState pc in
      case pc_GetNextState_loop (pcStates cfg) currentState 0 of
        Some r \<Rightarrow> r
      | None \<Rightarrow>
          (if length (pcStates cfg) > 0 then
             (Name (pcStates cfg ! 0), seconds (DurationSeconds (pcStates cfg ! 0)))
           else (ClaimStatusPending, 4 * Second)))"

definition gcpProjectID :: "string \<Rightarrow> int \<Rightarrow> string" where
  "gcpProjectID name unix = ''project-'' @ name @ ''-'' @ fmt_d (go_rem unix 10000)"

definition pc_ApplyState ::
  "ProjectClaimConfig \<Rightarrow> Time \<Rightarrow> int \<Rightarrow> ProjectClaim \<Rightarrow> string \<Rightarrow>
   ProjectClaim \<times> error option" where
  "pc_ApplyState cfg now unix pc state =
     (let pc1 = pc\<lparr>pcState := state\<rparr> in
      if state = ClaimStatusPending then
        (pc1\<lparr>pcConditions :=
               [\<lparr>condType = ''Pending'', condStatus = ConditionTrue,
                 condReason = ''ProjectPending'',
                 condMessage = ''Project claim is pending'',
                 LastTransitionTime = now, LastProbeTime = now\<rparr>]\<rparr>, None)
      else if state = ClaimStatusPendingProject then
        (let pc2 = pc1\<lparr>pcConditions :=
               [\<lparr>condType = ''PendingProject'', condStatus = ConditionTrue,
                 condReason = ''ProjectCreating'',
                 condMessage = ''GCP project is being created'',
                 LastTransitionTime = now, LastProbeTime = now\<rparr>]\<rparr> in
         if GCPProjectID pc2 = [] then
           (pc2\<lparr>GCPProjectID := gcpProjectID (pcName pc) unix\<rparr>, None)
         else (pc2, None))
      else if state = ClaimStatusReady then
        (let pc2 = pc1\<lparr>pcConditions :=
               [\<lparr>condType = ''Ready'', condStatus = ConditionTrue,
                 condReason = ''ProjectReady'',
                 condMessage = ''GCP project is ready'',
                 LastTransitionTime = now, LastProbeTime = now\<rparr>]\<rparr> in
         if GCPProjectID pc2 = [] then
           (pc2\<lparr>GCPProjectID := gcpProjectID (pcName pc) unix\<rparr>, None)
         else (pc2, None))
      else if state = ClaimStatusError then
        (pc1\<lparr>pcConditions :=
               [\<lparr>condType = ''Error'', condStatus = ConditionTrue,
                 condReason = ''ClaimFailed'',
                 condMessage = ''Project claim failed'',
                 LastTransitionTime = now, LastProbeTime = now\<rparr>]\<rparr>, None)
      else (pc1, None))"

section \<open>pkg/behavior: the engine\<close>

text \<open>
  The engine's random source is the stream of the samples it will return:
  \<open>rng.Float64()\<close> takes the head and leaves the tail. The map of overrides is keyed by
  the string \<open>makeKey\<close> builds. The lock and the logger have no part in the results.
\<close>

record Engine =
  config :: Config
  overrides :: "string \<rightharpoonup> ResourceOverride"
  rng :: "rat stream"

definition makeKey :: "string \<Rightarrow> string \<Rightarrow> string \<Rightarrow> string" where
  "makeKey resourceType namespace name = resourceType @ ''/'' @ namespace @ ''/'' @ name"

definition Float64 :: "rat stream \<Rightarrow> rat \<times> rat stream" where
  "Float64 g = (shd g, stl g)"

definition SetResourceOverride ::
  "Engine \<Rightarrow> string \<Rightarrow> string \<Rightarrow> string \<Rightarrow> ResourceOverride \<Rightarrow> Engine" where
  "SetResourceOverride e resourceType namespace name override =
     e\<lparr>overrides := (overrides e)(makeKey resourceType namespace name \<mapsto> override)\<rparr>"

definition ClearResourceOverride ::
  "Engine \<Rightarrow> string \<Rightarrow> string \<Rightarrow> string \<Rightarrow> Engine" where
  "ClearResourceOverride e resourceType namespace name =
     e\<lparr>overrides := (overrides e)(makeKey resourceType namespace name := None)\<rparr>"

definition ClearAllOverrides :: "Engine \<Rightarrow> Engine" where
  "ClearAllOverrides e = e\<lparr>overrides := Map.empty\<rparr>"

text \<open>
  The \<open>switch resourceType\<close> of \<open>ShouldFail\<close>: the scenarios of the kind, the empty
  list for an unknown kind or a \<open>nil\<close> sub-configuration.
\<close>

definition scenariosFor :: "Config \<Rightarrow> string \<Rightarrow> FailureScenario list" where
  "scenariosFor c resourceType =
     (if resourceType = ''ClusterDeployment'' then
        (case cfgClusterDeployment c of Some k \<Rightarrow> cdFailureScenarios k | None \<Rightarrow> [])
      else if resourceType = ''AccountClaim'' then
        (case cfgAccountClaim c of Some k \<Rightarrow> acFailureScenarios k | None \<Rightarrow> [])
      else if resourceType = ''ProjectClaim'' then
        (case cfgProjectClaim c of Some k \<Rightarrow> pcFailureScenarios k | None \<Rightarrow> [])
      else [])"

text \<open>
  The \<open>for i := range scenarios\<close> loop of \<open>ShouldFail\<close>, with the random source
  threaded through: the result and the source as the loop leaves it.
\<close>

fun ShouldFail_loop ::
  "FailureScenario list \<Rightarrow> rat stream \<Rightarrow> (bool \<times> FailureScenario option) \<times> rat stream" where
  "ShouldFail_loop [] g = ((False, None), g)"
| "ShouldFail_loop (scenario # rest) g =
     (if Probability scenario > 0 then
        (let (roll, g') = Float64 g in
         if roll < Probability scenario then ((True, Some scenario), g')
         else ShouldFail_loop rest g')
      else ShouldFail_loop rest g)"

definition ShouldFail ::
  "Engine \<Rightarrow> string \<Rightarrow> string \<Rightarrow> string \<Rightarrow> (bool \<times> FailureScenario option) \<times> Engine" where
  "ShouldFail e resourceType namespace name =
     (let key = makeKey resourceType namespace name;
          probabilistic =
            (let (r, g') = ShouldFail_loop (scenariosFor (config e) resourceType) (rng e)
             in (r, e\<lparr>rng := g'\<rparr>))
      in case overrides e key of
           Some override \<Rightarrow>
             (if ForceSuccess override then ((False, None), e)
              else if ForceFail override \<noteq> None then ((True, ForceFail override), e)
              else probabilistic)
         | None \<Rightarrow> probabilistic)"

definition GetTransitionDelay ::
  "Engine \<Rightarrow> string \<Rightarrow> string \<Rightarrow> string \<Rightarrow> Duration \<Rightarrow> Duration" where
  "GetTransitionDelay e resourceType namespace name defaultDuration =
     (case overrides e (makeKey resourceType namespace name) of
        Some override \<Rightarrow>
          (case DelaySeconds override of
             Some d \<Rightarrow> seconds d
           | None \<Rightarrow> defaultDuration)
      | None \<Rightarrow> defaultDuration)"

text \<open>
  The claim's reading of the probabilistic loop, for comparison with \<open>ShouldFail_loop\<close>:
  one sample is drawn for every scenario, and the first scenario whose probability
  exceeds its sample fires.
\<close>

fun spec_ShouldFail_loop ::
  "FailureScenario list \<Rightarrow> rat stream \<Rightarrow> (bool \<times> FailureScenario option) \<times> rat stream" where
  "spec_ShouldFail_loop [] g = ((False, None), g)"
| "spec_ShouldFail_loop (scenario # rest) g =
     (let (roll, g') = Float64 g in
      if Probability scenario > roll then ((True, Some scenario), g')
      else spec_ShouldFail_loop rest g')"

section \<open>pkg/api: the delay endpoint\<close>

text \<open>
  \<open>Handlers.SetResourceDelay\<close>: the path variables and the decoded body (\<open>None\<close> when
  the JSON decoder fails) give the new engine and the HTTP status.
\<close>

definition SetResourceDelay ::
  "Engine \<Rightarrow> string \<Rightarrow> string \<Rightarrow> string \<Rightarrow> int64 option \<Rightarrow> Engine \<times> nat" where
  "SetResourceDelay e resourceType namespace name body =
     (case body of
        None \<Rightarrow> (e, 400)
      | Some delaySeconds \<Rightarrow>
          (let override = \<lparr>ResourceName = name, DelaySeconds = Some delaySeconds,
                           ForceFail = None, ForceSuccess = False\<rparr>
           in (SetResourceOverride e resourceType namespace name override, 200)))"

section \<open>pkg/controllers: the dependency checks of the ClusterDeployment reconciler\<close>

text \<open>
  \<open>labels.ID\<close>, the key of the cluster-ID label, is a constant of a package that is
  not under src/: it is the parameter \<open>ID\<close>. The store is the result of
  \<open>r.client.List\<close> for the namespace of the ClusterDeployment: an error or the items.
  A Go map read of a missing key gives the empty string.
\<close>

definition label :: "(string \<rightharpoonup> string) \<Rightarrow> string \<Rightarrow> string" where
  "label ls k = (case ls k of Some v \<Rightarrow> v | None \<Rightarrow> [])"

fun checkAccountClaim_loop ::
  "string \<Rightarrow> string \<Rightarrow> AccountClaim list \<Rightarrow> bool \<times> Duration" where
  "checkAccountClaim_loop ID clusterID [] = (False, 2 * Second)"
| "checkAccountClaim_loop ID clusterID (ac # rest) =
     (if label (acLabels ac) ID = clusterID then
        (if acState ac = ClaimStatusReady then (True, 0) else (False, 2 * Second))
      else checkAccountClaim_loop ID clusterID rest)"

definition checkAccountClaim ::
  "string \<Rightarrow> (string \<Rightarrow> error + AccountClaim list) \<Rightarrow> ClusterDeployment \<Rightarrow>
   bool \<times> Duration" where
  "checkAccountClaim ID list cd =
     (case cdLabels cd ID of
        None \<Rightarrow> (True, 0)
      | Some clusterID \<Rightarrow>
          (case list (cdNamespace cd) of
             Inl err \<Rightarrow> (False, 5 * Second)
           | Inr items \<Rightarrow> checkAccountClaim_loop ID clusterID items))"

fun checkProjectClaim_loop ::
  "string \<Rightarrow> string \<Rightarrow> ProjectClaim list \<Rightarrow> bool \<times> Duration" where
  "checkProjectClaim_loop ID clusterID [] = (False, 2 * Second)"
| "checkProjectClaim_loop ID clusterID (pc # rest) =
     (if label (pcLabels pc) ID = clusterID then
        (if pcState pc = ClaimStatusReady then (True, 0) else (False, 2 * Second))
      else checkProjectClaim_loop ID clusterID rest)"

definition checkProjectClaim ::
  "string \<Rightarrow> (string \<Rightarrow> error + ProjectClaim list) \<Rightarrow> ClusterDeployment \<Rightarrow>
   bool \<times> Duration" where
  "checkProjectClaim ID list cd =
     (case cdLabels cd ID of
        None \<Rightarrow> (True, 0)
      | Some clusterID \<Rightarrow>
          (case list (cdNamespace cd) of
             Inl err \<Rightarrow> (False, 5 * Second)
           | Inr items \<Rightarrow> checkProjectClaim_loop ID clusterID items))"

section \<open>The loops of GetNextState\<close>

text \<open>
  Each loop stops at the first entry that matches the current state: it skips the entries
  before it, and what it returns depends on whether that entry is the last one.
\<close>

lemma cd_GetNextState_loop_dropWhile:
  "cd_GetNextState_loop states cur i =
     (case dropWhile (\<lambda>s. Name s \<noteq> cur) (drop i states) of
        [] \<Rightarrow> None
      | [p] \<Rightarrow> Some (cur, 0)
      | p # n # rest \<Rightarrow> Some (Name n, seconds (DurationSeconds n)))"
proof (induction states cur i rule: cd_GetNextState_loop.induct)
  case (1 states cur i)
  show ?case
  proof (cases "i < length states")
    case False
    then show ?thesis
      by (simp add: cd_GetNextState_loop.simps [of states cur i])
  next
    case True
    then have d: "drop i states = states ! i # drop (Suc i) states"
      by (simp add: Cons_nth_drop_Suc)
    show ?thesis
    proof (cases "Name (states ! i) = cur")
      case False
      with True 1 d show ?thesis
        by (simp add: cd_GetNextState_loop.simps [of states cur i])
    next
      case m: True
      show ?thesis
      proof (cases "i \<ge> length states - 1")
        case True
        with \<open>i < length states\<close> have "drop (Suc i) states = []" by simp
        with True m d \<open>i < length states\<close> show ?thesis
          by (simp add: cd_GetNextState_loop.simps [of states cur i])
      next
        case False
        then have "Suc i < length states" by simp
        then have "drop (Suc i) states = states ! Suc i # drop (Suc (Suc i)) states"
          by (simp add: Cons_nth_drop_Suc)
        with False m d \<open>i < length states\<close> show ?thesis
          by (simp add: cd_GetNextState_loop.simps [of states cur i])
      qed
    qed
  qed
qed

lemma ac_GetNextState_loop_dropWhile:
  "ac_GetNextState_loop states cur i =
     (case dropWhile (\<lambda>s. \<not> (cur = Name s \<or> (cur = [] \<and> Name s = ''Pending'')))
             (drop i states) of
        [] \<Rightarrow> None
      | [p] \<Rightarrow> Some (Name p, 0)
      | p # n # rest \<Rightarrow> Some (Name n, seconds (DurationSeconds n)))"
proof (induction states cur i rule: ac_GetNextState_loop.induct)
  case (1 states cur i)
  let ?m = "cur = Name (states ! i) \<or> (cur = [] \<and> Name (states ! i) = ''Pending'')"
  show ?case
  proof (cases "i < length states")
    case False
    then show ?thesis
      by (simp add: ac_GetNextState_loop.simps [of states cur i])
  next
    case True
    then have d: "drop i states = states ! i # drop (Suc i) states"
      by (simp add: Cons_nth_drop_Suc)
    show ?thesis
    proof (cases ?m)
      case False
      with True have "ac_GetNextState_loop states cur i = ac_GetNextState_loop states cur (i + 1)"
        by (subst ac_GetNextState_loop.simps) auto
      moreover from False d have
        "dropWhile (\<lambda>s. \<not> (cur = Name s \<or> (cur = [] \<and> Name s = ''Pending''))) (drop i states)
         = dropWhile (\<lambda>s. \<not> (cur = Name s \<or> (cur = [] \<and> Name s = ''Pending'')))
             (drop (Suc i) states)"
        by simp
      ultimately show ?thesis
        using 1 True False by simp
    next
      case m: True
      show ?thesis
      proof (cases "i \<ge> length states - 1")
        case True
        with \<open>i < length states\<close> have "drop (Suc i) states = []" by simp
        with True m d \<open>i < length states\<close> show ?thesis
          by (auto simp add: ac_GetNextState_loop.simps [of states cur i])
      next
        case False
        then have "Suc i < length states" by simp
        then have "drop (Suc i) states = states ! Suc i # drop (Suc (Suc i)) states"
          by (simp add: Cons_nth_drop_Suc)
        with False m d \<open>i < length states\<close> show ?thesis
          by (auto simp add: ac_GetNextState_loop.simps [of states cur i])
      qed
    qed
  qed
qed

lemma pc_GetNextState_loop_dropWhile:
  "pc_GetNextState_loop states cur i =
     (case dropWhile (\<lambda>s. \<not> (cur = Name s \<or> (cur = [] \<and> Name s = ''Pending'')))
             (drop i states) of
        [] \<Rightarrow> None
      | [p] \<Rightarrow> Some (Name p, 0)
      | p # n # rest \<Rightarrow> Some (Name n, seconds (DurationSeconds n)))"
proof (induction states cur i rule: pc_GetNextState_loop.induct)
  case (1 states cur i)
  let ?m = "cur = Name (states ! i) \<or> (cur = [] \<and> Name (states ! i) = ''Pending'')"
  show ?case
  proof (cases "i < length states")
    case False
    then show ?thesis
      by (simp add: pc_GetNextState_loop.simps [of states cur i])
  next
    case True
    then have d: "drop i states = states ! i # drop (Suc i) states"
      by (simp add: Cons_nth_drop_Suc)
    show ?thesis
    proof (cases ?m)
      case False
      with True have "pc_GetNextState_loop states cur i = pc_GetNextState_loop states cur (i + 1)"
        by (subst pc_GetNextState_loop.simps) auto
      moreover from False d have
        "dropWhile (\<lambda>s. \<not> (cur = Name s \<or> (cur = [] \<and> Name s = ''Pending''))) (drop i states)
         = dropWhile (\<lambda>s. \<not> (cur = Name s \<or> (cur = [] \<and> Name s = ''Pending'')))
             (drop (Suc i) states)"
        by simp
      ultimately show ?thesis
        using 1 True False by simp
    next
      case m: True
      show ?thesis
      proof (cases "i \<ge> length states - 1")
        case True
        with \<open>i < length states\<close> have "drop (Suc i) states = []" by simp
        with True m d \<open>i < length states\<close> show ?thesis
          by (auto simp add: pc_GetNextState_loop.simps [of states cur i])
      next
        case False
        then have "Suc i < length states" by simp
        then have "drop (Suc i) states = states ! Suc i # drop (Suc (Suc i)) states"
          by (simp add: Cons_nth_drop_Suc)
        with False m d \<open>i < length states\<close> show ?thesis
          by (auto simp add: pc_GetNextState_loop.simps [of states cur i])
      qed
    qed
  qed
qed

lemma cd_GetNextState_dropWhile:
  "cd_GetNextState c cd =
     (case dropWhile (\<lambda>s. Name s \<noteq> getCurrentState cd) (cdStates c) of
        [] \<Rightarrow> (if cdStates c \<noteq> []
               then (Name (hd (cdStates c)), seconds (DurationSeconds (hd (cdStates c))))
               else (''Pending'', 5 * Second))
      | [p] \<Rightarrow> (getCurrentState cd, 0)
      | p # n # rest \<Rightarrow> (Name n, seconds (DurationSeconds n)))"
proof -
  let ?d = "dropWhile (\<lambda>s. Name s \<noteq> getCurrentState cd) (cdStates c)"
  have l: "cd_GetNextState_loop (cdStates c) (getCurrentState cd) 0 =
     (case ?d of [] \<Rightarrow> None | [p] \<Rightarrow> Some (getCurrentState cd, 0)
      | p # n # rest \<Rightarrow> Some (Name n, seconds (DurationSeconds n)))"
    by (simp add: cd_GetNextState_loop_dropWhile)
  show ?thesis
  proof (cases ?d)
    case Nil
    show ?thesis
      unfolding cd_GetNextState_def Let_def l Nil
      by (cases "cdStates c") simp_all
  next
    case (Cons p rest)
    show ?thesis
      unfolding cd_GetNextState_def Let_def l Cons
      by (cases rest) simp_all
  qed
qed

lemma ac_GetNextState_dropWhile:
  "ac_GetNextState a ac =
     (case dropWhile (\<lambda>s. \<not> (acState ac = Name s \<or> (acState ac = [] \<and> Name s = ''Pending''))) (acStates a) of
        [] \<Rightarrow> (if acStates a \<noteq> []
               then (Name (hd (acStates a)), seconds (DurationSeconds (hd (acStates a))))
               else (ClaimStatusPending, 3 * Second))
      | [p] \<Rightarrow> (Name p, 0)
      | p # n # rest \<Rightarrow> (Name n, seconds (DurationSeconds n)))"
proof -
  let ?d = "dropWhile (\<lambda>s. \<not> (acState ac = Name s \<or> (acState ac = [] \<and> Name s = ''Pending''))) (acStates a)"
  have l: "ac_GetNextState_loop (acStates a) (acState ac) 0 =
     (case ?d of [] \<Rightarrow> None | [p] \<Rightarrow> Some (Name p, 0)
      | p # n # rest \<Rightarrow> Some (Name n, seconds (DurationSeconds n)))"
    by (simp add: ac_GetNextState_loop_dropWhile)
  show ?thesis
  proof (cases ?d)
    case Nil
    show ?thesis
      unfolding ac_GetNextState_def Let_def l Nil
      by (cases "acStates a") simp_all
  next
    case (Cons p rest)
    show ?thesis
      unfolding ac_GetNextState_def Let_def l Cons
      by (cases rest) simp_all
  qed
qed

lemma pc_GetNextState_dropWhile:
  "pc_GetNextState b pc =
     (case dropWhile (\<lambda>s. \<not> (pcState pc = Name s \<or> (pcState pc = [] \<and> Name s = ''Pending''))) (pcStates b) of
        [] \<Rightarrow> (if pcStates b \<noteq> []
               then (Name (hd (pcStates b)), seconds (DurationSeconds (hd (pcStates b))))
               else (ClaimStatusPending, 4 * Second))
      | [p] \<Rightarrow> (Name p, 0)
      | p # n # rest \<Rightarrow> (Name n, seconds (DurationSeconds n)))"
proof -
  let ?d = "dropWhile (\<lambda>s. \<not> (pcState pc = Name s \<or> (pcState pc = [] \<and> Name s = ''Pending''))) (pcStates b)"
  have l: "pc_GetNextState_loop (pcStates b) (pcState pc) 0 =
     (case ?d of [] \<Rightarrow> None | [p] \<Rightarrow> Some (Name p, 0)
      | p # n # rest \<Rightarrow> Some (Name n, seconds (DurationSeconds n)))"
    by (simp add: pc_GetNextState_loop_dropWhile)
  show ?thesis
  proof (cases ?d)
    case Nil
    show ?thesis
      unfolding pc_GetNextState_def Let_def l Nil
      by (cases "pcStates b") simp_all
  next
    case (Cons p rest)
    show ?thesis
      unfolding pc_GetNextState_def Let_def l Cons
      by (cases rest) simp_all
  qed
qed

lemma fresh_claim_match:
  "(\<lambda>s. \<not> (([]::string) = Name s \<or> (([]::string) = [] \<and> Name s = ''Pending'')))
   = (\<lambda>s. Name s \<noteq> [] \<and> Name s \<noteq> ''Pending'')"
  by auto

lemma fresh_getCurrentState:
  "\<not> Installed cd \<Longrightarrow> cdConditions cd = [] \<Longrightarrow> ProvisionRef cd = None \<Longrightarrow>
   getCurrentState cd = ''Pending''"
  by (simp add: getCurrentState_def)

lemma dropWhile_last_only:
  assumes "xs \<noteq> []" and "\<forall>x \<in> set (butlast xs). P x" and "\<not> P (last xs)"
  shows "dropWhile P xs = [last xs]"
proof -
  from assms(1) have "xs = butlast xs @ [last xs]" by simp
  then have "dropWhile P xs = dropWhile P (butlast xs @ [last xs])" by simp
  also from assms(2) have "\<dots> = dropWhile P [last xs]"
    by simp
  also from assms(3) have "\<dots> = [last xs]" by simp
  finally show ?thesis .
qed

section \<open>GetNextState on a fresh resource\<close>

text \<open>
  C1. The claim: for every kind with a non-empty state sequence, \<open>GetNextState\<close> on a
  freshly created resource returns the first configured state with its duration, never a
  later entry. It fails on the default configuration: a fresh ClusterDeployment derives
  the state \<open>Pending\<close>, the loop finds the entry of that name and returns the entry after
  it, \<open>Provisioning\<close> with 2 seconds; a fresh AccountClaim has the empty stored state,
  which the loop matches with the entry \<open>Pending\<close>, and gets \<open>Ready\<close> in the same way.
\<close>

theorem GetNextState_fresh_counterexample:
  "cdStates DefaultClusterDeploymentConfig \<noteq> []
   \<and> cd_GetNextState DefaultClusterDeploymentConfig
        \<lparr>cdName = ''c1'', cdNamespace = ''ns'', cdLabels = Map.empty, Installed = False,
         cdClusterMetadata = None, cdConditions = [], ProvisionRef = None,
         WebConsoleURL = [], APIURL = [], InstalledTimestamp = None\<rparr>
       = (''Provisioning'', seconds 2)
   \<and> (''Provisioning'', seconds 2)
       \<noteq> (Name (hd (cdStates DefaultClusterDeploymentConfig)),
           seconds (DurationSeconds (hd (cdStates DefaultClusterDeploymentConfig))))
   \<and> ac_GetNextState DefaultAccountClaimConfig
        \<lparr>acName = ''a1'', acNamespace = ''ns'', acLabels = Map.empty,
         BYOCAWSAccountID = [], acState = [], acConditions = []\<rparr>
       = (''Ready'', seconds 1)
   \<and> (''Ready'', seconds 1)
       \<noteq> (Name (hd (acStates DefaultAccountClaimConfig)),
           seconds (DurationSeconds (hd (acStates DefaultAccountClaimConfig))))"
  by (simp add: cd_GetNextState_def ac_GetNextState_def DefaultClusterDeploymentConfig_def
      DefaultAccountClaimConfig_def getCurrentState_def cd_GetNextState_loop.simps
      ac_GetNextState_loop.simps)

text \<open>
  C1, amended. A fresh resource counts as being in the state \<open>Pending\<close> (a fresh claim
  also in a state with the empty name). \<open>dropWhile\<close> skips the entries before the first
  entry of such a name. When the sequence has none, \<open>GetNextState\<close> returns the first
  configured state with its duration; when that entry is the last one, it returns the
  entry's own name with zero duration; otherwise it returns the entry after it with that
  entry's duration.
\<close>

theorem GetNextState_fresh:
  "(cdStates c \<noteq> [] \<and> \<not> Installed cd \<and> cdConditions cd = [] \<and> ProvisionRef cd = None \<longrightarrow>
      cd_GetNextState c cd =
        (case dropWhile (\<lambda>s. Name s \<noteq> ''Pending'') (cdStates c) of
           [] \<Rightarrow> (Name (hd (cdStates c)), seconds (DurationSeconds (hd (cdStates c))))
         | [p] \<Rightarrow> (''Pending'', 0)
         | p # n # rest \<Rightarrow> (Name n, seconds (DurationSeconds n))))
   \<and> (acStates a \<noteq> [] \<and> acState ac = [] \<longrightarrow>
      ac_GetNextState a ac =
        (case dropWhile (\<lambda>s. Name s \<noteq> [] \<and> Name s \<noteq> ''Pending'') (acStates a) of
           [] \<Rightarrow> (Name (hd (acStates a)), seconds (DurationSeconds (hd (acStates a))))
         | [p] \<Rightarrow> (Name p, 0)
         | p # n # rest \<Rightarrow> (Name n, seconds (DurationSeconds n))))
   \<and> (pcStates b \<noteq> [] \<and> pcState pc = [] \<longrightarrow>
      pc_GetNextState b pc =
        (case dropWhile (\<lambda>s. Name s \<noteq> [] \<and> Name s \<noteq> ''Pending'') (pcStates b) of
           [] \<Rightarrow> (Name (hd (pcStates b)), seconds (DurationSeconds (hd (pcStates b))))
         | [p] \<Rightarrow> (Name p, 0)
         | p # n # rest \<Rightarrow> (Name n, seconds (DurationSeconds n))))"
proof (intro conjI impI)
  assume h: "cdStates c \<noteq> [] \<and> \<not> Installed cd \<and> cdConditions cd = [] \<and> ProvisionRef cd = None"
  then have cur: "getCurrentState cd = ''Pending''"
    by (simp add: fresh_getCurrentState)
  from h have ne: "(cdStates c \<noteq> []) = True" by simp
  show "cd_GetNextState c cd =
        (case dropWhile (\<lambda>s. Name s \<noteq> ''Pending'') (cdStates c) of
           [] \<Rightarrow> (Name (hd (cdStates c)), seconds (DurationSeconds (hd (cdStates c))))
         | [p] \<Rightarrow> (''Pending'', 0)
         | p # n # rest \<Rightarrow> (Name n, seconds (DurationSeconds n)))"
    unfolding cd_GetNextState_dropWhile cur ne if_True ..
next
  assume h: "acStates a \<noteq> [] \<and> acState ac = []"
  then have cur: "acState ac = []" and ne: "(acStates a \<noteq> []) = True" by simp_all
  show "ac_GetNextState a ac =
        (case dropWhile (\<lambda>s. Name s \<noteq> [] \<and> Name s \<noteq> ''Pending'') (acStates a) of
           [] \<Rightarrow> (Name (hd (acStates a)), seconds (DurationSeconds (hd (acStates a))))
         | [p] \<Rightarrow> (Name p, 0)
         | p # n # rest \<Rightarrow> (Name n, seconds (DurationSeconds n)))"
    unfolding ac_GetNextState_dropWhile cur ne if_True fresh_claim_match ..
next
  assume h: "pcStates b \<noteq> [] \<and> pcState pc = []"
  then have cur: "pcState pc = []" and ne: "(pcStates b \<noteq> []) = True" by simp_all
  show "pc_GetNextState b pc =
        (case dropWhile (\<lambda>s. Name s \<noteq> [] \<and> Name s \<noteq> ''Pending'') (pcStates b) of
           [] \<Rightarrow> (Name (hd (pcStates b)), seconds (DurationSeconds (hd (pcStates b))))
         | [p] \<Rightarrow> (Name p, 0)
         | p # n # rest \<Rightarrow> (Name n, seconds (DurationSeconds n)))"
    unfolding pc_GetNextState_dropWhile cur ne if_True fresh_claim_match ..
qed

theorem GetNextState_fresh_witness:
  "cd_GetNextState DefaultClusterDeploymentConfig
        \<lparr>cdName = ''c1'', cdNamespace = ''ns'', cdLabels = Map.empty, Installed = False,
         cdClusterMetadata = None, cdConditions = [], ProvisionRef = None,
         WebConsoleURL = [], APIURL = [], InstalledTimestamp = None\<rparr>
     = (''Provisioning'', seconds 2)
   \<and> ac_GetNextState
        \<lparr>acDefaultDelaySeconds = 3,
         acStates = [\<lparr>Name = ''Creating'', DurationSeconds = 4, Conditions = []\<rparr>,
                     \<lparr>Name = ''Ready'', DurationSeconds = 1, Conditions = []\<rparr>],
         acFailureScenarios = []\<rparr>
        \<lparr>acName = ''a1'', acNamespace = ''ns'', acLabels = Map.empty,
         BYOCAWSAccountID = [], acState = [], acConditions = []\<rparr>
     = (''Creating'', seconds 4)
   \<and> pc_GetNextState
        \<lparr>pcDefaultDelaySeconds = 4,
         pcStates = [\<lparr>Name = ''Pending'', DurationSeconds = 1, Conditions = []\<rparr>],
         pcFailureScenarios = []\<rparr>
        \<lparr>pcName = ''p1'', pcNamespace = ''ns'', pcLabels = Map.empty,
         GCPProjectID = [], pcState = [], pcConditions = []\<rparr>
     = (''Pending'', 0)"
  using GetNextState_fresh
    [of DefaultClusterDeploymentConfig
        "\<lparr>cdName = ''c1'', cdNamespace = ''ns'', cdLabels = Map.empty, Installed = False,
         cdClusterMetadata = None, cdConditions = [], ProvisionRef = None,
         WebConsoleURL = [], APIURL = [], InstalledTimestamp = None\<rparr>"
        "\<lparr>acDefaultDelaySeconds = 3,
         acStates = [\<lparr>Name = ''Creating'', DurationSeconds = 4, Conditions = []\<rparr>,
                     \<lparr>Name = ''Ready'', DurationSeconds = 1, Conditions = []\<rparr>],
         acFailureScenarios = []\<rparr>"
        "\<lparr>acName = ''a1'', acNamespace = ''ns'', acLabels = Map.empty,
         BYOCAWSAccountID = [], acState = [], acConditions = []\<rparr>"
        "\<lparr>pcDefaultDelaySeconds = 4,
         pcStates = [\<lparr>Name = ''Pending'', DurationSeconds = 1, Conditions = []\<rparr>],
         pcFailureScenarios = []\<rparr>"
        "\<lparr>pcName = ''p1'', pcNamespace = ''ns'', pcLabels = Map.empty,
         GCPProjectID = [], pcState = [], pcConditions = []\<rparr>"]
  by (simp add: DefaultClusterDeploymentConfig_def)

section \<open>GetNextState in the last configured state\<close>

text \<open>
  C2. The claim: for every kind with a non-empty state sequence, a resource whose current
  state equals the last entry gets that state back with zero duration. The loop compares
  names and stops at the first entry that matches, so the claim fails when the name of
  the last entry also stands earlier in the sequence: an installed ClusterDeployment
  under the sequence Running, Provisioning, Running is sent to \<open>Provisioning\<close>, and an
  AccountClaim in the state \<open>Pending\<close> under Pending, Ready, Pending is sent to \<open>Ready\<close>.
\<close>

theorem GetNextState_terminal_counterexample:
  "getCurrentState
       \<lparr>cdName = ''c1'', cdNamespace = ''ns'', cdLabels = Map.empty, Installed = True,
        cdClusterMetadata = None, cdConditions = [], ProvisionRef = None,
        WebConsoleURL = [], APIURL = [], InstalledTimestamp = None\<rparr>
     = Name (last [\<lparr>Name = ''Running'', DurationSeconds = 1, Conditions = []\<rparr>,
                   \<lparr>Name = ''Provisioning'', DurationSeconds = 2, Conditions = []\<rparr>,
                   \<lparr>Name = ''Running'', DurationSeconds = 1, Conditions = []\<rparr>])
   \<and> cd_GetNextState
       \<lparr>cdDefaultDelaySeconds = 5,
        cdStates = [\<lparr>Name = ''Running'', DurationSeconds = 1, Conditions = []\<rparr>,
                    \<lparr>Name = ''Provisioning'', DurationSeconds = 2, Conditions = []\<rparr>,
                    \<lparr>Name = ''Running'', DurationSeconds = 1, Conditions = []\<rparr>],
        cdFailureScenarios = [], DependsOnAccountClaim = False,
        DependsOnProjectClaim = False\<rparr>
       \<lparr>cdName = ''c1'', cdNamespace = ''ns'', cdLabels = Map.empty, Installed = True,
        cdClusterMetadata = None, cdConditions = [], ProvisionRef = None,
        WebConsoleURL = [], APIURL = [], InstalledTimestamp = None\<rparr>
     = (''Provisioning'', seconds 2)
   \<and> (''Provisioning'', seconds 2) \<noteq> (''Running'', 0)
   \<and> ac_GetNextState
       \<lparr>acDefaultDelaySeconds = 3,
        acStates = [\<lparr>Name = ''Pending'', DurationSeconds = 2, Conditions = []\<rparr>,
                    \<lparr>Name = ''Ready'', DurationSeconds = 1, Conditions = []\<rparr>,
                    \<lparr>Name = ''Pending'', DurationSeconds = 1, Conditions = []\<rparr>],
        acFailureScenarios = []\<rparr>
       \<lparr>acName = ''a1'', acNamespace = ''ns'', acLabels = Map.empty,
        BYOCAWSAccountID = [], acState = ''Pending'', acConditions = []\<rparr>
     = (''Ready'', seconds 1)
   \<and> (''Ready'', seconds 1) \<noteq> (''Pending'', 0)"
  by (simp add: cd_GetNextState_def ac_GetNextState_def getCurrentState_def
      cd_GetNextState_loop.simps ac_GetNextState_loop.simps)

text \<open>
  C2, amended. For every kind with a non-empty state sequence, if the current state of the
  resource equals the name of the last entry and no earlier entry matches it (no earlier
  entry has that name and, for a claim whose state is the empty string, no earlier entry
  is named \<open>Pending\<close>), then \<open>GetNextState\<close> returns that name with zero duration.
  \<open>GetNextState\<close> reads the resource and the configuration and writes neither, so every
  further call on them returns the same pair.
\<close>

theorem GetNextState_terminal:
  "(cdStates c \<noteq> [] \<and> getCurrentState cd = Name (last (cdStates c))
      \<and> (\<forall>s \<in> set (butlast (cdStates c)). Name s \<noteq> Name (last (cdStates c))) \<longrightarrow>
      cd_GetNextState c cd = (Name (last (cdStates c)), 0))
   \<and> (acStates a \<noteq> [] \<and> acState ac = Name (last (acStates a))
      \<and> (\<forall>s \<in> set (butlast (acStates a)). Name s \<noteq> Name (last (acStates a)))
      \<and> (acState ac = [] \<longrightarrow> (\<forall>s \<in> set (butlast (acStates a)). Name s \<noteq> ''Pending'')) \<longrightarrow>
      ac_GetNextState a ac = (Name (last (acStates a)), 0))
   \<and> (pcStates b \<noteq> [] \<and> pcState pc = Name (last (pcStates b))
      \<and> (\<forall>s \<in> set (butlast (pcStates b)). Name s \<noteq> Name (last (pcStates b)))
      \<and> (pcState pc = [] \<longrightarrow> (\<forall>s \<in> set (butlast (pcStates b)). Name s \<noteq> ''Pending'')) \<longrightarrow>
      pc_GetNextState b pc = (Name (last (pcStates b)), 0))"
proof (intro conjI impI)
  assume h: "cdStates c \<noteq> [] \<and> getCurrentState cd = Name (last (cdStates c))
      \<and> (\<forall>s \<in> set (butlast (cdStates c)). Name s \<noteq> Name (last (cdStates c)))"
  then have "dropWhile (\<lambda>s. Name s \<noteq> getCurrentState cd) (cdStates c) = [last (cdStates c)]"
    by (intro dropWhile_last_only) auto
  with h show "cd_GetNextState c cd = (Name (last (cdStates c)), 0)"
    by (simp add: cd_GetNextState_dropWhile)
next
  assume h: "acStates a \<noteq> [] \<and> acState ac = Name (last (acStates a))
      \<and> (\<forall>s \<in> set (butlast (acStates a)). Name s \<noteq> Name (last (acStates a)))
      \<and> (acState ac = [] \<longrightarrow> (\<forall>s \<in> set (butlast (acStates a)). Name s \<noteq> ''Pending''))"
  then have "dropWhile (\<lambda>s. \<not> (acState ac = Name s \<or> (acState ac = [] \<and> Name s = ''Pending'')))
               (acStates a) = [last (acStates a)]"
    by (intro dropWhile_last_only) auto
  then show "ac_GetNextState a ac = (Name (last (acStates a)), 0)"
    by (simp add: ac_GetNextState_dropWhile)
next
  assume h: "pcStates b \<noteq> [] \<and> pcState pc = Name (last (pcStates b))
      \<and> (\<forall>s \<in> set (butlast (pcStates b)). Name s \<noteq> Name (last (pcStates b)))
      \<and> (pcState pc = [] \<longrightarrow> (\<forall>s \<in> set (butlast (pcStates b)). Name s \<noteq> ''Pending''))"
  then have "dropWhile (\<lambda>s. \<not> (pcState pc = Name s \<or> (pcState pc = [] \<and> Name s = ''Pending'')))
               (pcStates b) = [last (pcStates b)]"
    by (intro dropWhile_last_only) auto
  then show "pc_GetNextState b pc = (Name (last (pcStates b)), 0)"
    by (simp add: pc_GetNextState_dropWhile)
qed

theorem GetNextState_terminal_witness:
  "cd_GetNextState DefaultClusterDeploymentConfig
        \<lparr>cdName = ''c1'', cdNamespace = ''ns'', cdLabels = Map.empty, Installed = True,
         cdClusterMetadata = None, cdConditions = [], ProvisionRef = None,
         WebConsoleURL = [], APIURL = [], InstalledTimestamp = None\<rparr>
     = (''Running'', 0)
   \<and> ac_GetNextState DefaultAccountClaimConfig
        \<lparr>acName = ''a1'', acNamespace = ''ns'', acLabels = Map.empty,
         BYOCAWSAccountID = [], acState = ''Ready'', acConditions = []\<rparr>
     = (''Ready'', 0)
   \<and> pc_GetNextState DefaultProjectClaimConfig
        \<lparr>pcName = ''p1'', pcNamespace = ''ns'', pcLabels = Map.empty,
         GCPProjectID = [], pcState = ''Ready'', pcConditions = []\<rparr>
     = (''Ready'', 0)"
  using GetNextState_terminal
    [of DefaultClusterDeploymentConfig
        "\<lparr>cdName = ''c1'', cdNamespace = ''ns'', cdLabels = Map.empty, Installed = True,
         cdClusterMetadata = None, cdConditions = [], ProvisionRef = None,
         WebConsoleURL = [], APIURL = [], InstalledTimestamp = None\<rparr>"
        DefaultAccountClaimConfig
        "\<lparr>acName = ''a1'', acNamespace = ''ns'', acLabels = Map.empty,
         BYOCAWSAccountID = [], acState = ''Ready'', acConditions = []\<rparr>"
        DefaultProjectClaimConfig
        "\<lparr>pcName = ''p1'', pcNamespace = ''ns'', pcLabels = Map.empty,
         GCPProjectID = [], pcState = ''Ready'', pcConditions = []\<rparr>"]
  by (simp add: DefaultClusterDeploymentConfig_def DefaultAccountClaimConfig_def
      DefaultProjectClaimConfig_def getCurrentState_def)

section \<open>ShouldFail\<close>

lemma ShouldFail_no_override:
  "overrides e (makeKey resourceType namespace name) = None \<Longrightarrow>
   ShouldFail e resourceType namespace name =
     (fst (ShouldFail_loop (scenariosFor (config e) resourceType) (rng e)),
      e\<lparr>rng := snd (ShouldFail_loop (scenariosFor (config e) resourceType) (rng e))\<rparr>)"
  by (simp add: ShouldFail_def Let_def split: prod.split)

lemma ShouldFail_loop_find:
  "fst (ShouldFail_loop ss g) =
     (case find (\<lambda>(s, roll). roll < Probability s)
             (zip (filter (\<lambda>s. 0 < Probability s) ss)
                  (stake (length (filter (\<lambda>s. 0 < Probability s) ss)) g)) of
        None \<Rightarrow> (False, None)
      | Some (s, roll) \<Rightarrow> (True, Some s))"
  by (induction ss arbitrary: g) (simp_all add: Float64_def)

lemma ShouldFail_loop_fired:
  "fst (ShouldFail_loop ss g) = (True, r) \<Longrightarrow>
   \<exists>s. r = Some s \<and> s \<in> set ss \<and> 0 < Probability s"
  by (induction ss arbitrary: g) (auto simp: Float64_def split: if_splits)

lemma ShouldFail_loop_append:
  "ShouldFail_loop pre g = ((False, None), g') \<Longrightarrow>
   ShouldFail_loop (pre @ ss) g = ShouldFail_loop ss g'"
  by (induction pre arbitrary: g) (auto simp: Float64_def split: if_splits)

text \<open>
  C3. The claim: without an override, \<open>ShouldFail\<close> goes through the scenarios of the
  kind in declaration order, draws one sample for every scenario, and returns the first
  scenario whose probability exceeds its sample. The source draws a sample only inside
  \<open>if scenario.Probability > 0\<close>, so a scenario of probability 0 takes no sample and the
  next scenario is compared with the sample the claim gives to the skipped one. With the
  scenarios A (probability 0) and B (probability 1/2) and the samples 3/10, 9/10, \<dots> the
  source fires B on 3/10; drawing one sample per scenario compares B with 9/10 and
  fires nothing.
\<close>

theorem ShouldFail_sampling_counterexample:
  "fst (ShouldFail
         \<lparr>config = \<lparr>cfgClusterDeployment = Some
              \<lparr>cdDefaultDelaySeconds = 5, cdStates = [],
               cdFailureScenarios =
                 [\<lparr>Probability = 0, fsCondition = ''A'', fsMessage = ''a'', fsReason = ''ra''\<rparr>,
                  \<lparr>Probability = 1 / 2, fsCondition = ''B'', fsMessage = ''b'', fsReason = ''rb''\<rparr>],
               DependsOnAccountClaim = False, DependsOnProjectClaim = False\<rparr>,
            cfgAccountClaim = None, cfgProjectClaim = None\<rparr>,
          overrides = Map.empty,
          rng = 3 / 10 ## sconst (9 / 10)\<rparr>
         ''ClusterDeployment'' ''ns'' ''c1'')
     = (True, Some \<lparr>Probability = 1 / 2, fsCondition = ''B'', fsMessage = ''b'', fsReason = ''rb''\<rparr>)
   \<and> fst (spec_ShouldFail_loop
         [\<lparr>Probability = 0, fsCondition = ''A'', fsMessage = ''a'', fsReason = ''ra''\<rparr>,
          \<lparr>Probability = 1 / 2, fsCondition = ''B'', fsMessage = ''b'', fsReason = ''rb''\<rparr>]
         (3 / 10 ## sconst (9 / 10)))
     = (False, None)"
  by (simp add: ShouldFail_def scenariosFor_def Float64_def)

text \<open>
  C3, amended. Without an override, \<open>ShouldFail\<close> goes through the scenarios of the kind
  in declaration order and draws one sample for each scenario of positive probability
  that it reaches; a scenario whose probability is not positive is skipped without a
  draw. It returns the first scenario whose probability strictly exceeds its sample
  (first conjunct: the scenarios of positive probability paired, in order, with the
  samples of the source). For every sequence of samples, a scenario that fires is one of
  the configured scenarios and has a positive probability, so one of probability 0 never
  fires (second conjunct); a scenario of probability 1 or more fires when the loop
  reaches it, the samples of \<open>Float64\<close> being below 1 (third conjunct); and when no
  scenario fires the result is no failure, the \<open>None\<close> case of the first conjunct.
\<close>

theorem ShouldFail_probabilistic:
  "(overrides e (makeKey resourceType namespace name) = None \<longrightarrow>
      fst (ShouldFail e resourceType namespace name) =
        (case find (\<lambda>(s, roll). roll < Probability s)
                (zip (filter (\<lambda>s. 0 < Probability s) (scenariosFor (config e) resourceType))
                     (stake (length (filter (\<lambda>s. 0 < Probability s)
                                       (scenariosFor (config e) resourceType))) (rng e))) of
           None \<Rightarrow> (False, None)
         | Some (s, roll) \<Rightarrow> (True, Some s)))
   \<and> (overrides e (makeKey resourceType namespace name) = None
      \<and> fst (ShouldFail e resourceType namespace name) = (True, r) \<longrightarrow>
      (\<exists>s. r = Some s \<and> s \<in> set (scenariosFor (config e) resourceType) \<and> 0 < Probability s))
   \<and> (overrides e (makeKey resourceType namespace name) = None
      \<and> scenariosFor (config e) resourceType = pre @ s0 # rest
      \<and> ShouldFail_loop pre (rng e) = ((False, None), g')
      \<and> 1 \<le> Probability s0 \<and> shd g' < 1 \<longrightarrow>
      ShouldFail e resourceType namespace name = ((True, Some s0), e\<lparr>rng := stl g'\<rparr>))"
proof (intro conjI impI)
  assume "overrides e (makeKey resourceType namespace name) = None"
  then show "fst (ShouldFail e resourceType namespace name) =
        (case find (\<lambda>(s, roll). roll < Probability s)
                (zip (filter (\<lambda>s. 0 < Probability s) (scenariosFor (config e) resourceType))
                     (stake (length (filter (\<lambda>s. 0 < Probability s)
                                       (scenariosFor (config e) resourceType))) (rng e))) of
           None \<Rightarrow> (False, None)
         | Some (s, roll) \<Rightarrow> (True, Some s))"
    by (simp add: ShouldFail_no_override ShouldFail_loop_find)
next
  assume h: "overrides e (makeKey resourceType namespace name) = None
      \<and> fst (ShouldFail e resourceType namespace name) = (True, r)"
  then have no: "overrides e (makeKey resourceType namespace name) = None"
    and f: "fst (ShouldFail e resourceType namespace name) = (True, r)"
    by blast+
  from f have "fst (ShouldFail_loop (scenariosFor (config e) resourceType) (rng e)) = (True, r)"
    unfolding ShouldFail_no_override [OF no] fst_conv .
  then show "\<exists>s. r = Some s \<and> s \<in> set (scenariosFor (config e) resourceType) \<and> 0 < Probability s"
    by (rule ShouldFail_loop_fired)
next
  assume h: "overrides e (makeKey resourceType namespace name) = None
      \<and> scenariosFor (config e) resourceType = pre @ s0 # rest
      \<and> ShouldFail_loop pre (rng e) = ((False, None), g')
      \<and> 1 \<le> Probability s0 \<and> shd g' < 1"
  then have "ShouldFail_loop (pre @ s0 # rest) (rng e) = ShouldFail_loop (s0 # rest) g'"
    by (simp add: ShouldFail_loop_append)
  also from h have "\<dots> = ((True, Some s0), stl g')"
    by (simp add: Float64_def)
  finally have "ShouldFail_loop (scenariosFor (config e) resourceType) (rng e)
                  = ((True, Some s0), stl g')"
    using h by simp
  moreover from h have "overrides e (makeKey resourceType namespace name) = None"
    by blast
  ultimately show
    "ShouldFail e resourceType namespace name = ((True, Some s0), e\<lparr>rng := stl g'\<rparr>)"
    by (simp add: ShouldFail_no_override)
qed

theorem ShouldFail_probabilistic_witness:
  "fst (ShouldFail
         \<lparr>config = \<lparr>cfgClusterDeployment = Some
              \<lparr>cdDefaultDelaySeconds = 5, cdStates = [],
               cdFailureScenarios =
                 [\<lparr>Probability = 0, fsCondition = ''A'', fsMessage = ''a'', fsReason = ''ra''\<rparr>,
                  \<lparr>Probability = 1, fsCondition = ''B'', fsMessage = ''b'', fsReason = ''rb''\<rparr>],
               DependsOnAccountClaim = False, DependsOnProjectClaim = False\<rparr>,
            cfgAccountClaim = None, cfgProjectClaim = None\<rparr>,
          overrides = Map.empty,
          rng = sconst (9 / 10)\<rparr>
         ''ClusterDeployment'' ''ns'' ''c1'')
     = (True, Some \<lparr>Probability = 1, fsCondition = ''B'', fsMessage = ''b'', fsReason = ''rb''\<rparr>)"
  using ShouldFail_probabilistic
    [of "\<lparr>config = \<lparr>cfgClusterDeployment = Some
              \<lparr>cdDefaultDelaySeconds = 5, cdStates = [],
               cdFailureScenarios =
                 [\<lparr>Probability = 0, fsCondition = ''A'', fsMessage = ''a'', fsReason = ''ra''\<rparr>,
                  \<lparr>Probability = 1, fsCondition = ''B'', fsMessage = ''b'', fsReason = ''rb''\<rparr>],
               DependsOnAccountClaim = False, DependsOnProjectClaim = False\<rparr>,
            cfgAccountClaim = None, cfgProjectClaim = None\<rparr>,
          overrides = Map.empty,
          rng = sconst (9 / 10)\<rparr>"
        "''ClusterDeployment''" "''ns''" "''c1''" _
        "[\<lparr>Probability = 0, fsCondition = ''A'', fsMessage = ''a'', fsReason = ''ra''\<rparr>]"
        "\<lparr>Probability = 1, fsCondition = ''B'', fsMessage = ''b'', fsReason = ''rb''\<rparr>"
        "[]" "sconst (9 / 10)"]
  by (simp add: scenariosFor_def)

section \<open>Overrides\<close>

text \<open>
  C4. When the override stored for a resource has the force-success flag set, \<open>ShouldFail\<close>
  returns \<open>(false, nil)\<close>, whatever forced failure the override also carries and whatever
  scenarios are configured; the engine is returned as it was, so the random source has
  not been read.
\<close>

theorem ShouldFail_ForceSuccess_wins:
  "overrides e (makeKey resourceType namespace name) = Some ov \<and> ForceSuccess ov
     \<and> ForceFail ov = Some f \<longrightarrow>
   ShouldFail e resourceType namespace name = ((False, None), e)"
  by (simp add: ShouldFail_def Let_def)

theorem ShouldFail_ForceSuccess_wins_witness:
  "fst (ShouldFail
     (SetResourceOverride
        \<lparr>config = \<lparr>cfgClusterDeployment = Some
             \<lparr>cdDefaultDelaySeconds = 5, cdStates = [],
              cdFailureScenarios =
                [\<lparr>Probability = 1, fsCondition = ''TestFailure'',
                  fsMessage = ''Test failure message'', fsReason = ''TestReason''\<rparr>],
              DependsOnAccountClaim = False, DependsOnProjectClaim = False\<rparr>,
           cfgAccountClaim = None, cfgProjectClaim = None\<rparr>,
         overrides = Map.empty, rng = sconst 0\<rparr>
        ''ClusterDeployment'' ''default'' ''test-cluster''
        \<lparr>ResourceName = ''test-cluster'', DelaySeconds = None,
         ForceFail = Some \<lparr>Probability = 0, fsCondition = ''ForcedFailure'',
                           fsMessage = ''This is a forced failure'', fsReason = ''TestReason''\<rparr>,
         ForceSuccess = True\<rparr>)
     ''ClusterDeployment'' ''default'' ''test-cluster'')
   = (False, None)"
  using ShouldFail_ForceSuccess_wins
    [of "SetResourceOverride
        \<lparr>config = \<lparr>cfgClusterDeployment = Some
             \<lparr>cdDefaultDelaySeconds = 5, cdStates = [],
              cdFailureScenarios =
                [\<lparr>Probability = 1, fsCondition = ''TestFailure'',
                  fsMessage = ''Test failure message'', fsReason = ''TestReason''\<rparr>],
              DependsOnAccountClaim = False, DependsOnProjectClaim = False\<rparr>,
           cfgAccountClaim = None, cfgProjectClaim = None\<rparr>,
         overrides = Map.empty, rng = sconst 0\<rparr>
        ''ClusterDeployment'' ''default'' ''test-cluster''
        \<lparr>ResourceName = ''test-cluster'', DelaySeconds = None,
         ForceFail = Some \<lparr>Probability = 0, fsCondition = ''ForcedFailure'',
                           fsMessage = ''This is a forced failure'', fsReason = ''TestReason''\<rparr>,
         ForceSuccess = True\<rparr>"
        "''ClusterDeployment''" "''default''" "''test-cluster''"
        "\<lparr>ResourceName = ''test-cluster'', DelaySeconds = None,
         ForceFail = Some \<lparr>Probability = 0, fsCondition = ''ForcedFailure'',
                           fsMessage = ''This is a forced failure'', fsReason = ''TestReason''\<rparr>,
         ForceSuccess = True\<rparr>"
        "\<lparr>Probability = 0, fsCondition = ''ForcedFailure'',
          fsMessage = ''This is a forced failure'', fsReason = ''TestReason''\<rparr>"]
  by (simp add: SetResourceOverride_def)

text \<open>
  C8. \<open>GetTransitionDelay\<close> returns the delay of the override of the resource when the
  override sets one (as a duration: the seconds times \<open>time.Second\<close>), and the default
  duration unchanged when there is no override or the override sets no delay. A delay
  override of 30 seconds with a default of 5 seconds gives 30 seconds, and after
  \<open>ClearResourceOverride\<close> the default is returned again.
\<close>

theorem GetTransitionDelay_override:
  "(overrides e (makeKey resourceType namespace name) = Some ov \<and> DelaySeconds ov = Some d \<longrightarrow>
      GetTransitionDelay e resourceType namespace name dflt = seconds d)
   \<and> (overrides e (makeKey resourceType namespace name) = Some ov \<and> DelaySeconds ov = None \<longrightarrow>
      GetTransitionDelay e resourceType namespace name dflt = dflt)
   \<and> (overrides e (makeKey resourceType namespace name) = None \<longrightarrow>
      GetTransitionDelay e resourceType namespace name dflt = dflt)
   \<and> GetTransitionDelay
        (SetResourceOverride e resourceType namespace name (ov\<lparr>DelaySeconds := Some 30\<rparr>))
        resourceType namespace name (5 * Second) = 30 * Second
   \<and> GetTransitionDelay
        (ClearResourceOverride (SetResourceOverride e resourceType namespace name ov)
           resourceType namespace name)
        resourceType namespace name dflt = dflt"
  by (simp add: GetTransitionDelay_def SetResourceOverride_def ClearResourceOverride_def
      seconds_def)

theorem GetTransitionDelay_override_witness:
  "GetTransitionDelay
     (SetResourceOverride
        \<lparr>config = \<lparr>cfgClusterDeployment = None, cfgAccountClaim = None,
                    cfgProjectClaim = None\<rparr>,
         overrides = Map.empty, rng = sconst 0\<rparr>
        ''ClusterDeployment'' ''default'' ''test-cluster''
        \<lparr>ResourceName = ''test-cluster'', DelaySeconds = Some 30, ForceFail = None,
         ForceSuccess = False\<rparr>)
     ''ClusterDeployment'' ''default'' ''test-cluster'' (5 * Second) = seconds 30
   \<and> GetTransitionDelay
     (SetResourceOverride
        \<lparr>config = \<lparr>cfgClusterDeployment = None, cfgAccountClaim = None,
                    cfgProjectClaim = None\<rparr>,
         overrides = Map.empty, rng = sconst 0\<rparr>
        ''ClusterDeployment'' ''default'' ''test-cluster''
        \<lparr>ResourceName = ''test-cluster'', DelaySeconds = None, ForceFail = None,
         ForceSuccess = True\<rparr>)
     ''ClusterDeployment'' ''default'' ''test-cluster'' (5 * Second) = 5 * Second
   \<and> GetTransitionDelay
        \<lparr>config = \<lparr>cfgClusterDeployment = None, cfgAccountClaim = None,
                    cfgProjectClaim = None\<rparr>,
         overrides = Map.empty, rng = sconst 0\<rparr>
     ''ClusterDeployment'' ''default'' ''test-cluster'' (5 * Second) = 5 * Second"
  using
    GetTransitionDelay_override
      [where e = "SetResourceOverride
        \<lparr>config = \<lparr>cfgClusterDeployment = None, cfgAccountClaim = None,
                    cfgProjectClaim = None\<rparr>,
         overrides = Map.empty, rng = sconst 0\<rparr>
        ''ClusterDeployment'' ''default'' ''test-cluster''
        \<lparr>ResourceName = ''test-cluster'', DelaySeconds = Some 30, ForceFail = None,
         ForceSuccess = False\<rparr>"
       and resourceType = "''ClusterDeployment''" and namespace = "''default''"
       and name = "''test-cluster''"
       and ov = "\<lparr>ResourceName = ''test-cluster'', DelaySeconds = Some 30, ForceFail = None,
         ForceSuccess = False\<rparr>"
       and d = 30 and dflt = "5 * Second"]
    GetTransitionDelay_override
      [where e = "SetResourceOverride
        \<lparr>config = \<lparr>cfgClusterDeployment = None, cfgAccountClaim = None,
                    cfgProjectClaim = None\<rparr>,
         overrides = Map.empty, rng = sconst 0\<rparr>
        ''ClusterDeployment'' ''default'' ''test-cluster''
        \<lparr>ResourceName = ''test-cluster'', DelaySeconds = None, ForceFail = None,
         ForceSuccess = True\<rparr>"
       and resourceType = "''ClusterDeployment''" and namespace = "''default''"
       and name = "''test-cluster''"
       and ov = "\<lparr>ResourceName = ''test-cluster'', DelaySeconds = None, ForceFail = None,
         ForceSuccess = True\<rparr>"
       and dflt = "5 * Second"]
    GetTransitionDelay_override
      [where e = "\<lparr>config = \<lparr>cfgClusterDeployment = None, cfgAccountClaim = None,
                    cfgProjectClaim = None\<rparr>,
         overrides = Map.empty, rng = sconst 0\<rparr>"
       and resourceType = "''ClusterDeployment''" and namespace = "''default''"
       and name = "''test-cluster''" and dflt = "5 * Second"]
  by (simp add: SetResourceOverride_def)

text \<open>
  C10. \<open>SetResourceOverride\<close> stores the given override under the key of the resource in
  place of whatever was stored there, touching no other key, the configuration or the
  random source. The delay endpoint stores an override that carries only the delay: a
  forced failure that was set before is gone, and \<open>ShouldFail\<close> for the resource is the
  probabilistic loop over the configured scenarios of the kind again.
\<close>

theorem SetResourceOverride_replaces:
  "overrides (SetResourceOverride e resourceType namespace name ov)
       (makeKey resourceType namespace name) = Some ov
   \<and> (k \<noteq> makeKey resourceType namespace name \<longrightarrow>
        overrides (SetResourceOverride e resourceType namespace name ov) k = overrides e k)
   \<and> config (SetResourceOverride e resourceType namespace name ov) = config e
   \<and> rng (SetResourceOverride e resourceType namespace name ov) = rng e
   \<and> overrides (fst (SetResourceDelay e resourceType namespace name (Some d)))
        (makeKey resourceType namespace name)
      = Some \<lparr>ResourceName = name, DelaySeconds = Some d, ForceFail = None,
              ForceSuccess = False\<rparr>
   \<and> (overrides e (makeKey resourceType namespace name) = Some old
        \<and> \<not> ForceSuccess old \<and> ForceFail old = Some f \<longrightarrow>
        ShouldFail e resourceType namespace name = ((True, Some f), e)
        \<and> ShouldFail (fst (SetResourceDelay e resourceType namespace name (Some d)))
             resourceType namespace name
           = (fst (ShouldFail_loop (scenariosFor (config e) resourceType) (rng e)),
              (fst (SetResourceDelay e resourceType namespace name (Some d)))
                \<lparr>rng := snd (ShouldFail_loop (scenariosFor (config e) resourceType) (rng e))\<rparr>))"
  by (simp add: SetResourceOverride_def SetResourceDelay_def ShouldFail_def Let_def
      split: prod.split)

theorem SetResourceOverride_replaces_witness:
  "ShouldFail
     \<lparr>config = \<lparr>cfgClusterDeployment = None, cfgAccountClaim = None, cfgProjectClaim = None\<rparr>,
      overrides = [''ClusterDeployment/default/test-cluster'' \<mapsto>
        \<lparr>ResourceName = ''test-cluster'', DelaySeconds = None,
         ForceFail = Some \<lparr>Probability = 0, fsCondition = ''ForcedFailure'',
                           fsMessage = ''This is a forced failure'', fsReason = ''TestReason''\<rparr>,
         ForceSuccess = False\<rparr>],
      rng = sconst 0\<rparr>
     ''ClusterDeployment'' ''default'' ''test-cluster''
   = ((True, Some \<lparr>Probability = 0, fsCondition = ''ForcedFailure'',
                   fsMessage = ''This is a forced failure'', fsReason = ''TestReason''\<rparr>),
      \<lparr>config = \<lparr>cfgClusterDeployment = None, cfgAccountClaim = None, cfgProjectClaim = None\<rparr>,
      overrides = [''ClusterDeployment/default/test-cluster'' \<mapsto>
        \<lparr>ResourceName = ''test-cluster'', DelaySeconds = None,
         ForceFail = Some \<lparr>Probability = 0, fsCondition = ''ForcedFailure'',
                           fsMessage = ''This is a forced failure'', fsReason = ''TestReason''\<rparr>,
         ForceSuccess = False\<rparr>],
      rng = sconst 0\<rparr>)
   \<and> fst (ShouldFail
        (fst (SetResourceDelay
           \<lparr>config = \<lparr>cfgClusterDeployment = None, cfgAccountClaim = None,
                       cfgProjectClaim = None\<rparr>,
            overrides = [''ClusterDeployment/default/test-cluster'' \<mapsto>
              \<lparr>ResourceName = ''test-cluster'', DelaySeconds = None,
               ForceFail = Some \<lparr>Probability = 0, fsCondition = ''ForcedFailure'',
                                 fsMessage = ''This is a forced failure'',
                                 fsReason = ''TestReason''\<rparr>,
               ForceSuccess = False\<rparr>],
            rng = sconst 0\<rparr>
           ''ClusterDeployment'' ''default'' ''test-cluster'' (Some 30)))
        ''ClusterDeployment'' ''default'' ''test-cluster'')
     = (False, None)
   \<and> overrides
        (SetResourceOverride
           \<lparr>config = \<lparr>cfgClusterDeployment = None, cfgAccountClaim = None,
                       cfgProjectClaim = None\<rparr>,
            overrides = [''ClusterDeployment/default/test-cluster'' \<mapsto>
              \<lparr>ResourceName = ''test-cluster'', DelaySeconds = None,
               ForceFail = Some \<lparr>Probability = 0, fsCondition = ''ForcedFailure'',
                                 fsMessage = ''This is a forced failure'',
                                 fsReason = ''TestReason''\<rparr>,
               ForceSuccess = False\<rparr>],
            rng = sconst 0\<rparr>
           ''AccountClaim'' ''default'' ''acct''
           \<lparr>ResourceName = ''acct'', DelaySeconds = Some 15, ForceFail = None,
            ForceSuccess = False\<rparr>)
        ''ClusterDeployment/default/test-cluster''
     = Some \<lparr>ResourceName = ''test-cluster'', DelaySeconds = None,
             ForceFail = Some \<lparr>Probability = 0, fsCondition = ''ForcedFailure'',
                               fsMessage = ''This is a forced failure'',
                               fsReason = ''TestReason''\<rparr>,
             ForceSuccess = False\<rparr>"
  using
    SetResourceOverride_replaces
      [where e = "\<lparr>config = \<lparr>cfgClusterDeployment = None, cfgAccountClaim = None,
                       cfgProjectClaim = None\<rparr>,
            overrides = [''ClusterDeployment/default/test-cluster'' \<mapsto>
              \<lparr>ResourceName = ''test-cluster'', DelaySeconds = None,
               ForceFail = Some \<lparr>Probability = 0, fsCondition = ''ForcedFailure'',
                                 fsMessage = ''This is a forced failure'',
                                 fsReason = ''TestReason''\<rparr>,
               ForceSuccess = False\<rparr>],
            rng = sconst 0\<rparr>"
       and resourceType = "''ClusterDeployment''" and namespace = "''default''"
       and name = "''test-cluster''" and d = 30
       and old = "\<lparr>ResourceName = ''test-cluster'', DelaySeconds = None,
               ForceFail = Some \<lparr>Probability = 0, fsCondition = ''ForcedFailure'',
                                 fsMessage = ''This is a forced failure'',
                                 fsReason = ''TestReason''\<rparr>,
               ForceSuccess = False\<rparr>"
       and f = "\<lparr>Probability = 0, fsCondition = ''ForcedFailure'',
                 fsMessage = ''This is a forced failure'', fsReason = ''TestReason''\<rparr>"]
    SetResourceOverride_replaces
      [where e = "\<lparr>config = \<lparr>cfgClusterDeployment = None, cfgAccountClaim = None,
                       cfgProjectClaim = None\<rparr>,
            overrides = [''ClusterDeployment/default/test-cluster'' \<mapsto>
              \<lparr>ResourceName = ''test-cluster'', DelaySeconds = None,
               ForceFail = Some \<lparr>Probability = 0, fsCondition = ''ForcedFailure'',
                                 fsMessage = ''This is a forced failure'',
                                 fsReason = ''TestReason''\<rparr>,
               ForceSuccess = False\<rparr>],
            rng = sconst 0\<rparr>"
       and resourceType = "''AccountClaim''" and namespace = "''default''"
       and name = "''acct''"
       and ov = "\<lparr>ResourceName = ''acct'', DelaySeconds = Some 15, ForceFail = None,
            ForceSuccess = False\<rparr>"
       and k = "''ClusterDeployment/default/test-cluster''"]
  by (simp add: makeKey_def scenariosFor_def)

section \<open>ApplyState\<close>

lemma findStateConfig_None:
  "findStateConfig states state = None \<longleftrightarrow> state \<notin> Name ` set states"
  by (induction states) auto

lemma findStateConfig_Some_mem:
  "findStateConfig states state = Some sc \<Longrightarrow> state \<in> Name ` set states"
  by (induction states) (auto split: if_splits)

lemma findStateConfig_first:
  "(\<forall>s \<in> set pre. Name s \<noteq> state) \<Longrightarrow> Name sc = state \<Longrightarrow>
   findStateConfig (pre @ sc # post) state = Some sc"
  by (induction pre) auto

lemma gcpProjectID_nonempty: "gcpProjectID name unix \<noteq> []"
  by (simp add: gcpProjectID_def)

lemma pc_ApplyState_keeps_id:
  "GCPProjectID pc \<noteq> [] \<Longrightarrow>
   GCPProjectID (fst (pc_ApplyState b now unix pc state)) = GCPProjectID pc"
  by (simp add: pc_ApplyState_def Let_def)

lemma pc_ApplyState_PendingProject_id:
  "GCPProjectID (fst (pc_ApplyState b now unix pc ClaimStatusPendingProject))
   = (if GCPProjectID pc = [] then gcpProjectID (pcName pc) unix else GCPProjectID pc)"
  by (simp add: pc_ApplyState_def Let_def ClaimStatusPendingProject_def ClaimStatusPending_def)

lemma ac_ApplyState_keeps_id:
  "BYOCAWSAccountID ac \<noteq> [] \<Longrightarrow>
   BYOCAWSAccountID (fst (ac_ApplyState a now unix ac state)) = BYOCAWSAccountID ac"
  by (simp add: ac_ApplyState_def Let_def)

lemma ac_ApplyState_Ready_id:
  "BYOCAWSAccountID (fst (ac_ApplyState a now unix ac ClaimStatusReady))
   = (if BYOCAWSAccountID ac = [] then ''123456789'' @ fmt_03d (go_rem unix 1000)
      else BYOCAWSAccountID ac)"
  by (simp add: ac_ApplyState_def Let_def ClaimStatusReady_def ClaimStatusPending_def)

text \<open>
  C5. A ProjectClaim that enters \<open>PendingProject\<close> carries a non-empty GCP project
  identifier afterwards: the one it had, or a new one when it had none. A claim that
  carries an identifier keeps it through \<open>ApplyState\<close> of any state at any time, so
  applying \<open>PendingProject\<close>, \<open>Ready\<close> or any other state after the identifier was
  synthesized leaves it as it is. The same holds for the AWS account id of an
  AccountClaim that reaches \<open>Ready\<close>.
\<close>

theorem ApplyState_identifier_once:
  "GCPProjectID (fst (pc_ApplyState b now unix pc ClaimStatusPendingProject)) \<noteq> []
   \<and> (GCPProjectID pc = [] \<longrightarrow>
        GCPProjectID (fst (pc_ApplyState b now unix pc ClaimStatusPendingProject))
        = gcpProjectID (pcName pc) unix)
   \<and> (GCPProjectID pc \<noteq> [] \<longrightarrow>
        GCPProjectID (fst (pc_ApplyState b now unix pc state)) = GCPProjectID pc)
   \<and> GCPProjectID (fst (pc_ApplyState b' now' unix'
          (fst (pc_ApplyState b now unix pc ClaimStatusPendingProject)) state))
      = GCPProjectID (fst (pc_ApplyState b now unix pc ClaimStatusPendingProject))
   \<and> BYOCAWSAccountID (fst (ac_ApplyState a now unix ac ClaimStatusReady)) \<noteq> []
   \<and> (BYOCAWSAccountID ac = [] \<longrightarrow>
        BYOCAWSAccountID (fst (ac_ApplyState a now unix ac ClaimStatusReady))
        = ''123456789'' @ fmt_03d (go_rem unix 1000))
   \<and> (BYOCAWSAccountID ac \<noteq> [] \<longrightarrow>
        BYOCAWSAccountID (fst (ac_ApplyState a now unix ac state)) = BYOCAWSAccountID ac)
   \<and> BYOCAWSAccountID (fst (ac_ApplyState a' now' unix'
          (fst (ac_ApplyState a now unix ac ClaimStatusReady)) state))
      = BYOCAWSAccountID (fst (ac_ApplyState a now unix ac ClaimStatusReady))"
proof -
  have p: "GCPProjectID (fst (pc_ApplyState b now unix pc ClaimStatusPendingProject)) \<noteq> []"
    by (simp add: pc_ApplyState_PendingProject_id gcpProjectID_nonempty)
  have q: "BYOCAWSAccountID (fst (ac_ApplyState a now unix ac ClaimStatusReady)) \<noteq> []"
    by (simp add: ac_ApplyState_Ready_id)
  from p q show ?thesis
    by (simp add: pc_ApplyState_keeps_id ac_ApplyState_keeps_id
        pc_ApplyState_PendingProject_id ac_ApplyState_Ready_id)
qed

theorem ApplyState_identifier_once_witness:
  "GCPProjectID (fst (pc_ApplyState DefaultProjectClaimConfig 1730001234 1730001234
       \<lparr>pcName = ''p1'', pcNamespace = ''ns'', pcLabels = Map.empty,
        GCPProjectID = [], pcState = ''Pending'', pcConditions = []\<rparr>
       ClaimStatusPendingProject))
     = ''project-p1-1234''
   \<and> GCPProjectID (fst (pc_ApplyState DefaultProjectClaimConfig 1730009999 1730009999
       (fst (pc_ApplyState DefaultProjectClaimConfig 1730001234 1730001234
          \<lparr>pcName = ''p1'', pcNamespace = ''ns'', pcLabels = Map.empty,
           GCPProjectID = [], pcState = ''Pending'', pcConditions = []\<rparr>
          ClaimStatusPendingProject))
       ClaimStatusReady))
     = ''project-p1-1234''
   \<and> GCPProjectID (fst (pc_ApplyState DefaultProjectClaimConfig 1730009999 1730009999
       \<lparr>pcName = ''p1'', pcNamespace = ''ns'', pcLabels = Map.empty,
        GCPProjectID = ''my-project'', pcState = ''Pending'', pcConditions = []\<rparr>
       ClaimStatusPendingProject))
     = ''my-project''
   \<and> BYOCAWSAccountID (fst (ac_ApplyState DefaultAccountClaimConfig 1730001234 1730001234
       \<lparr>acName = ''a1'', acNamespace = ''ns'', acLabels = Map.empty,
        BYOCAWSAccountID = [], acState = ''Pending'', acConditions = []\<rparr>
       ClaimStatusReady))
     = ''123456789234''
   \<and> BYOCAWSAccountID (fst (ac_ApplyState DefaultAccountClaimConfig 1730009999 1730009999
       \<lparr>acName = ''a1'', acNamespace = ''ns'', acLabels = Map.empty,
        BYOCAWSAccountID = ''000011112222'', acState = ''Pending'', acConditions = []\<rparr>
       ClaimStatusReady))
     = ''000011112222''"
  using
    ApplyState_identifier_once
      [where b = DefaultProjectClaimConfig and b' = DefaultProjectClaimConfig
       and now = 1730001234 and unix = 1730001234 and now' = 1730009999 and unix' = 1730009999
       and pc = "\<lparr>pcName = ''p1'', pcNamespace = ''ns'', pcLabels = Map.empty,
           GCPProjectID = [], pcState = ''Pending'', pcConditions = []\<rparr>"
       and state = ClaimStatusReady
       and a = DefaultAccountClaimConfig
       and ac = "\<lparr>acName = ''a1'', acNamespace = ''ns'', acLabels = Map.empty,
        BYOCAWSAccountID = [], acState = ''Pending'', acConditions = []\<rparr>"]
    ApplyState_identifier_once
      [where b = DefaultProjectClaimConfig
       and now = 1730009999 and unix = 1730009999
       and pc = "\<lparr>pcName = ''p1'', pcNamespace = ''ns'', pcLabels = Map.empty,
        GCPProjectID = ''my-project'', pcState = ''Pending'', pcConditions = []\<rparr>"
       and state = ClaimStatusPendingProject]
    ApplyState_identifier_once
      [where a = DefaultAccountClaimConfig
       and now = 1730009999 and unix = 1730009999
       and ac = "\<lparr>acName = ''a1'', acNamespace = ''ns'', acLabels = Map.empty,
        BYOCAWSAccountID = ''000011112222'', acState = ''Pending'', acConditions = []\<rparr>"
       and state = ClaimStatusReady]
  by (simp add: gcpProjectID_def fmt_d_def fmt_03d_def go_rem_def fmt_nat.simps)

text \<open>
  C6. The claim: for every kind, \<open>ApplyState\<close> fails with "state not found" exactly
  when the state is absent from the configured sequence of the kind. Only the
  ClusterDeployment machine looks the state up. \<open>ApplyState\<close> of the AccountClaim and
  ProjectClaim machines switches on the built-in claim states and never reads the
  configuration: for a name that no configured state has it returns no error and stores
  the name as the state of the claim.
\<close>

theorem ApplyState_not_found_counterexample:
  "''Bogus'' \<notin> Name ` set (acStates DefaultAccountClaimConfig)
   \<and> snd (ac_ApplyState DefaultAccountClaimConfig 1730001234 1730001234
        \<lparr>acName = ''a1'', acNamespace = ''ns'', acLabels = Map.empty,
         BYOCAWSAccountID = [], acState = ''Pending'', acConditions = []\<rparr>
        ''Bogus'') = None
   \<and> acState (fst (ac_ApplyState DefaultAccountClaimConfig 1730001234 1730001234
        \<lparr>acName = ''a1'', acNamespace = ''ns'', acLabels = Map.empty,
         BYOCAWSAccountID = [], acState = ''Pending'', acConditions = []\<rparr>
        ''Bogus'')) = ''Bogus''
   \<and> ''Bogus'' \<notin> Name ` set (pcStates DefaultProjectClaimConfig)
   \<and> snd (pc_ApplyState DefaultProjectClaimConfig 1730001234 1730001234
        \<lparr>pcName = ''p1'', pcNamespace = ''ns'', pcLabels = Map.empty,
         GCPProjectID = [], pcState = ''Pending'', pcConditions = []\<rparr>
        ''Bogus'') = None"
  by (simp add: ac_ApplyState_def pc_ApplyState_def DefaultAccountClaimConfig_def
      DefaultProjectClaimConfig_def ClaimStatusPending_def ClaimStatusReady_def
      ClaimStatusError_def ClaimStatusPendingProject_def)

text \<open>
  C6, amended. \<open>ApplyState\<close> of a ClusterDeployment returns the "state not found" error
  exactly when no entry of the configured sequence has the given name, and then leaves
  the resource as it was, so that the call can be repeated; when an entry has the name it
  returns no error. \<open>ApplyState\<close> of an AccountClaim or a ProjectClaim never returns an
  error: it succeeds for every state name and stores the name as the state of the claim.
\<close>

theorem ApplyState_not_found:
  "snd (cd_ApplyState c now cd state)
     = (if state \<in> Name ` set (cdStates c) then None else Some (StateNotFound state))
   \<and> (state \<notin> Name ` set (cdStates c) \<longrightarrow> fst (cd_ApplyState c now cd state) = cd)
   \<and> snd (ac_ApplyState a now unix ac state) = None
   \<and> acState (fst (ac_ApplyState a now unix ac state)) = state
   \<and> snd (pc_ApplyState b now unix pc state) = None
   \<and> pcState (fst (pc_ApplyState b now unix pc state)) = state"
proof -
  have cd_err: "snd (cd_ApplyState c now cd state)
     = (if state \<in> Name ` set (cdStates c) then None else Some (StateNotFound state))"
  proof (cases "findStateConfig (cdStates c) state")
    case None
    then have "state \<notin> Name ` set (cdStates c)"
      by (simp add: findStateConfig_None [symmetric])
    with None show ?thesis
      by (simp add: cd_ApplyState_def)
  next
    case (Some sc)
    then have "state \<in> Name ` set (cdStates c)"
      by (rule findStateConfig_Some_mem)
    with Some show ?thesis
      by (simp add: cd_ApplyState_def Let_def)
  qed
  have cd_same: "state \<notin> Name ` set (cdStates c) \<longrightarrow> fst (cd_ApplyState c now cd state) = cd"
  proof
    assume "state \<notin> Name ` set (cdStates c)"
    then have "findStateConfig (cdStates c) state = None"
      by (simp add: findStateConfig_None [symmetric])
    then show "fst (cd_ApplyState c now cd state) = cd"
      by (simp add: cd_ApplyState_def)
  qed
  have claims: "snd (ac_ApplyState a now unix ac state) = None
      \<and> acState (fst (ac_ApplyState a now unix ac state)) = state
      \<and> snd (pc_ApplyState b now unix pc state) = None
      \<and> pcState (fst (pc_ApplyState b now unix pc state)) = state"
    by (simp add: ac_ApplyState_def pc_ApplyState_def Let_def)
  from cd_err cd_same claims show ?thesis by blast
qed

theorem ApplyState_not_found_witness:
  "cd_ApplyState DefaultClusterDeploymentConfig 1730001234
      \<lparr>cdName = ''test-cluster'', cdNamespace = ''default'', cdLabels = Map.empty,
       Installed = False, cdClusterMetadata = None, cdConditions = [], ProvisionRef = None,
       WebConsoleURL = [], APIURL = [], InstalledTimestamp = None\<rparr>
      ''InvalidState''
   = (\<lparr>cdName = ''test-cluster'', cdNamespace = ''default'', cdLabels = Map.empty,
       Installed = False, cdClusterMetadata = None, cdConditions = [], ProvisionRef = None,
       WebConsoleURL = [], APIURL = [], InstalledTimestamp = None\<rparr>,
      Some (StateNotFound ''InvalidState''))
   \<and> snd (cd_ApplyState DefaultClusterDeploymentConfig 1730001234
      \<lparr>cdName = ''test-cluster'', cdNamespace = ''default'', cdLabels = Map.empty,
       Installed = False, cdClusterMetadata = None, cdConditions = [], ProvisionRef = None,
       WebConsoleURL = [], APIURL = [], InstalledTimestamp = None\<rparr>
      ''Provisioning'') = None"
  using
    ApplyState_not_found
      [where c = DefaultClusterDeploymentConfig and now = 1730001234
       and cd = "\<lparr>cdName = ''test-cluster'', cdNamespace = ''default'', cdLabels = Map.empty,
       Installed = False, cdClusterMetadata = None, cdConditions = [], ProvisionRef = None,
       WebConsoleURL = [], APIURL = [], InstalledTimestamp = None\<rparr>"
       and state = "''InvalidState''"]
    ApplyState_not_found
      [where c = DefaultClusterDeploymentConfig and now = 1730001234
       and cd = "\<lparr>cdName = ''test-cluster'', cdNamespace = ''default'', cdLabels = Map.empty,
       Installed = False, cdClusterMetadata = None, cdConditions = [], ProvisionRef = None,
       WebConsoleURL = [], APIURL = [], InstalledTimestamp = None\<rparr>"
       and state = "''Provisioning''"]
  by (simp add: DefaultClusterDeploymentConfig_def prod_eq_iff)

text \<open>
  C7. The claim: for every kind, a successful \<open>ApplyState\<close> replaces the condition list
  with exactly the conditions that the configuration entry of the applied state
  declares. The AccountClaim and ProjectClaim machines do not read the configured
  conditions: the default configuration declares no condition for the state \<open>Ready\<close> of
  an AccountClaim, and \<open>ApplyState\<close> of \<open>Ready\<close> leaves the claim with one condition.
\<close>

theorem ApplyState_conditions_counterexample:
  "findStateConfig (acStates DefaultAccountClaimConfig) ''Ready''
     = Some \<lparr>Name = ''Ready'', DurationSeconds = 1, Conditions = []\<rparr>
   \<and> snd (ac_ApplyState DefaultAccountClaimConfig 1730001234 1730001234
        \<lparr>acName = ''a1'', acNamespace = ''ns'', acLabels = Map.empty,
         BYOCAWSAccountID = [], acState = ''Pending'', acConditions = []\<rparr>
        ''Ready'') = None
   \<and> acConditions (fst (ac_ApplyState DefaultAccountClaimConfig 1730001234 1730001234
        \<lparr>acName = ''a1'', acNamespace = ''ns'', acLabels = Map.empty,
         BYOCAWSAccountID = [], acState = ''Pending'', acConditions = []\<rparr>
        ''Ready''))
     = [\<lparr>condType = AccountClaimed, condStatus = ''True'', condReason = ''AccountClaimed'',
         condMessage = ''Account has been claimed'',
         LastTransitionTime = 1730001234, LastProbeTime = 1730001234\<rparr>]
   \<and> [\<lparr>condType = AccountClaimed, condStatus = ''True'', condReason = ''AccountClaimed'',
         condMessage = ''Account has been claimed'',
         LastTransitionTime = 1730001234, LastProbeTime = 1730001234\<rparr>]
     \<noteq> buildConditions \<lparr>Name = ''Ready'', DurationSeconds = 1, Conditions = []\<rparr> 1730001234"
  by (simp add: ac_ApplyState_def DefaultAccountClaimConfig_def ClaimStatusPending_def
      ClaimStatusReady_def ConditionTrue_def buildConditions_def)

text \<open>
  C7, amended. A successful \<open>ApplyState\<close> of a ClusterDeployment replaces the condition
  list, whatever it held, with one condition for each condition that the first
  configuration entry of the applied name declares, in the same order and with the same
  type, reason and message, the status \<open>True\<close> or \<open>False\<close> as declared and \<open>Unknown\<close>
  for any other declared status, and the application time as both timestamps.
  \<open>ApplyState\<close> of an AccountClaim or a ProjectClaim takes nothing from the
  configuration: for the built-in states (\<open>Pending\<close>, \<open>Ready\<close>, \<open>Error\<close>, and
  \<open>PendingProject\<close> of a ProjectClaim) it replaces the list with a single condition of
  status \<open>True\<close> that carries the application time as both timestamps, and for any other
  state name it leaves the list as it was.
\<close>

theorem ApplyState_conditions:
  "(cdStates c = pre @ sc # post \<and> (\<forall>s \<in> set pre. Name s \<noteq> state) \<and> Name sc = state \<longrightarrow>
      snd (cd_ApplyState c now cd state) = None
      \<and> list_all2
          (\<lambda>r cc. condType r = ccType cc
             \<and> condStatus r = (if ccStatus cc = ''True'' then ConditionTrue
                               else if ccStatus cc = ''False'' then ConditionFalse
                               else ConditionUnknown)
             \<and> condReason r = ccReason cc \<and> condMessage r = ccMessage cc
             \<and> LastTransitionTime r = now \<and> LastProbeTime r = now)
          (cdConditions (fst (cd_ApplyState c now cd state))) (Conditions sc))
   \<and> ac_ApplyState a now unix ac state = ac_ApplyState a' now unix ac state
   \<and> (state \<in> {ClaimStatusPending, ClaimStatusReady, ClaimStatusError} \<longrightarrow>
      (\<exists>r. acConditions (fst (ac_ApplyState a now unix ac state)) = [r]
           \<and> condStatus r = ConditionTrue
           \<and> LastTransitionTime r = now \<and> LastProbeTime r = now))
   \<and> (state \<notin> {ClaimStatusPending, ClaimStatusReady, ClaimStatusError} \<longrightarrow>
      acConditions (fst (ac_ApplyState a now unix ac state)) = acConditions ac)
   \<and> pc_ApplyState b now unix pc state = pc_ApplyState b' now unix pc state
   \<and> (state \<in> {ClaimStatusPending, ClaimStatusPendingProject, ClaimStatusReady,
                 ClaimStatusError} \<longrightarrow>
      (\<exists>r. pcConditions (fst (pc_ApplyState b now unix pc state)) = [r]
           \<and> condStatus r = ConditionTrue
           \<and> LastTransitionTime r = now \<and> LastProbeTime r = now))
   \<and> (state \<notin> {ClaimStatusPending, ClaimStatusPendingProject, ClaimStatusReady,
                 ClaimStatusError} \<longrightarrow>
      pcConditions (fst (pc_ApplyState b now unix pc state)) = pcConditions pc)"
proof -
  have cd: "cdStates c = pre @ sc # post \<and> (\<forall>s \<in> set pre. Name s \<noteq> state) \<and> Name sc = state \<longrightarrow>
      snd (cd_ApplyState c now cd state) = None
      \<and> list_all2
          (\<lambda>r cc. condType r = ccType cc
             \<and> condStatus r = (if ccStatus cc = ''True'' then ConditionTrue
                               else if ccStatus cc = ''False'' then ConditionFalse
                               else ConditionUnknown)
             \<and> condReason r = ccReason cc \<and> condMessage r = ccMessage cc
             \<and> LastTransitionTime r = now \<and> LastProbeTime r = now)
          (cdConditions (fst (cd_ApplyState c now cd state))) (Conditions sc)"
  proof (intro impI)
    assume h: "cdStates c = pre @ sc # post \<and> (\<forall>s \<in> set pre. Name s \<noteq> state) \<and> Name sc = state"
    then have f: "findStateConfig (cdStates c) state = Some sc"
      by (simp add: findStateConfig_first)
    have conds: "cdConditions (fst (cd_ApplyState c now cd state))
                 = map (buildCondition now) (Conditions sc)"
      by (simp add: cd_ApplyState_def f Let_def buildConditions_def)
    have "list_all2
          (\<lambda>r cc. condType r = ccType cc
             \<and> condStatus r = (if ccStatus cc = ''True'' then ConditionTrue
                               else if ccStatus cc = ''False'' then ConditionFalse
                               else ConditionUnknown)
             \<and> condReason r = ccReason cc \<and> condMessage r = ccMessage cc
             \<and> LastTransitionTime r = now \<and> LastProbeTime r = now)
          (map (buildCondition now) (Conditions sc)) (Conditions sc)"
      by (simp add: list_all2_map1 list.rel_refl buildCondition_def)
    moreover have "snd (cd_ApplyState c now cd state) = None"
      by (simp add: cd_ApplyState_def f Let_def)
    ultimately show "snd (cd_ApplyState c now cd state) = None
      \<and> list_all2
          (\<lambda>r cc. condType r = ccType cc
             \<and> condStatus r = (if ccStatus cc = ''True'' then ConditionTrue
                               else if ccStatus cc = ''False'' then ConditionFalse
                               else ConditionUnknown)
             \<and> condReason r = ccReason cc \<and> condMessage r = ccMessage cc
             \<and> LastTransitionTime r = now \<and> LastProbeTime r = now)
          (cdConditions (fst (cd_ApplyState c now cd state))) (Conditions sc)"
      by (simp add: conds)
  qed
  have ac: "ac_ApplyState a now unix ac state = ac_ApplyState a' now unix ac state
   \<and> (state \<in> {ClaimStatusPending, ClaimStatusReady, ClaimStatusError} \<longrightarrow>
      (\<exists>r. acConditions (fst (ac_ApplyState a now unix ac state)) = [r]
           \<and> condStatus r = ConditionTrue
           \<and> LastTransitionTime r = now \<and> LastProbeTime r = now))
   \<and> (state \<notin> {ClaimStatusPending, ClaimStatusReady, ClaimStatusError} \<longrightarrow>
      acConditions (fst (ac_ApplyState a now unix ac state)) = acConditions ac)"
    by (simp add: ac_ApplyState_def Let_def)
  have pc: "pc_ApplyState b now unix pc state = pc_ApplyState b' now unix pc state
   \<and> (state \<in> {ClaimStatusPending, ClaimStatusPendingProject, ClaimStatusReady,
                 ClaimStatusError} \<longrightarrow>
      (\<exists>r. pcConditions (fst (pc_ApplyState b now unix pc state)) = [r]
           \<and> condStatus r = ConditionTrue
           \<and> LastTransitionTime r = now \<and> LastProbeTime r = now))
   \<and> (state \<notin> {ClaimStatusPending, ClaimStatusPendingProject, ClaimStatusReady,
                 ClaimStatusError} \<longrightarrow>
      pcConditions (fst (pc_ApplyState b now unix pc state)) = pcConditions pc)"
    by (simp add: pc_ApplyState_def Let_def)
  from cd ac pc show ?thesis by blast
qed

theorem ApplyState_conditions_witness:
  "snd (cd_ApplyState DefaultClusterDeploymentConfig 1730001234
      \<lparr>cdName = ''test-cluster'', cdNamespace = ''default'', cdLabels = Map.empty,
       Installed = False, cdClusterMetadata = None,
       cdConditions = [\<lparr>condType = ''Old'', condStatus = ''True'', condReason = ''r'',
                        condMessage = ''m'', LastTransitionTime = 5, LastProbeTime = 5\<rparr>],
       ProvisionRef = None, WebConsoleURL = [], APIURL = [], InstalledTimestamp = None\<rparr>
      ''Provisioning'') = None
   \<and> list_all2
        (\<lambda>r cc. condType r = ccType cc
           \<and> condStatus r = (if ccStatus cc = ''True'' then ConditionTrue
                             else if ccStatus cc = ''False'' then ConditionFalse
                             else ConditionUnknown)
           \<and> condReason r = ccReason cc \<and> condMessage r = ccMessage cc
           \<and> LastTransitionTime r = 1730001234 \<and> LastProbeTime r = 1730001234)
        (cdConditions (fst (cd_ApplyState DefaultClusterDeploymentConfig 1730001234
           \<lparr>cdName = ''test-cluster'', cdNamespace = ''default'', cdLabels = Map.empty,
            Installed = False, cdClusterMetadata = None,
            cdConditions = [\<lparr>condType = ''Old'', condStatus = ''True'', condReason = ''r'',
                             condMessage = ''m'', LastTransitionTime = 5, LastProbeTime = 5\<rparr>],
            ProvisionRef = None, WebConsoleURL = [], APIURL = [],
            InstalledTimestamp = None\<rparr>
           ''Provisioning'')))
        [\<lparr>ccType = ''DeprovisionLaunchError'', ccStatus = ''False'',
          ccReason = ''Provisioning'', ccMessage = ''Cluster is provisioning''\<rparr>]
   \<and> (\<exists>r. acConditions (fst (ac_ApplyState DefaultAccountClaimConfig 1730001234 1730001234
          \<lparr>acName = ''a1'', acNamespace = ''ns'', acLabels = Map.empty,
           BYOCAWSAccountID = [], acState = ''Pending'', acConditions = []\<rparr>
          ''Ready'')) = [r]
        \<and> condStatus r = ConditionTrue
        \<and> LastTransitionTime r = 1730001234 \<and> LastProbeTime r = 1730001234)
   \<and> pcConditions (fst (pc_ApplyState DefaultProjectClaimConfig 1730001234 1730001234
          \<lparr>pcName = ''p1'', pcNamespace = ''ns'', pcLabels = Map.empty,
           GCPProjectID = [], pcState = ''Pending'',
           pcConditions = [\<lparr>condType = ''Old'', condStatus = ''True'', condReason = ''r'',
                            condMessage = ''m'', LastTransitionTime = 5, LastProbeTime = 5\<rparr>]\<rparr>
          ''Verification''))
     = [\<lparr>condType = ''Old'', condStatus = ''True'', condReason = ''r'',
         condMessage = ''m'', LastTransitionTime = 5, LastProbeTime = 5\<rparr>]"
  using
    ApplyState_conditions
      [where c = DefaultClusterDeploymentConfig and now = 1730001234 and unix = 1730001234
       and cd = "\<lparr>cdName = ''test-cluster'', cdNamespace = ''default'', cdLabels = Map.empty,
            Installed = False, cdClusterMetadata = None,
            cdConditions = [\<lparr>condType = ''Old'', condStatus = ''True'', condReason = ''r'',
                             condMessage = ''m'', LastTransitionTime = 5, LastProbeTime = 5\<rparr>],
            ProvisionRef = None, WebConsoleURL = [], APIURL = [],
            InstalledTimestamp = None\<rparr>"
       and state = "''Provisioning''"
       and pre = "[\<lparr>Name = ''Pending'', DurationSeconds = 1, Conditions = []\<rparr>]"
       and sc = "\<lparr>Name = ''Provisioning'', DurationSeconds = 2, Conditions =
            [\<lparr>ccType = ''DeprovisionLaunchError'', ccStatus = ''False'',
              ccReason = ''Provisioning'', ccMessage = ''Cluster is provisioning''\<rparr>]\<rparr>"
       and post = "[\<lparr>Name = ''Installing'', DurationSeconds = 1, Conditions =
            [\<lparr>ccType = ''DNSNotReady'', ccStatus = ''False'',
              ccReason = ''DNSReady'', ccMessage = ''DNS is ready''\<rparr>]\<rparr>,
         \<lparr>Name = ''Running'', DurationSeconds = 1, Conditions =
            [\<lparr>ccType = ''ClusterDeploymentCompleted'', ccStatus = ''True'',
              ccReason = ''ClusterDeploymentCompleted'',
              ccMessage = ''Cluster deployment is complete''\<rparr>]\<rparr>]"]
    ApplyState_conditions
      [where now = 1730001234 and unix = 1730001234
       and a = DefaultAccountClaimConfig
       and ac = "\<lparr>acName = ''a1'', acNamespace = ''ns'', acLabels = Map.empty,
           BYOCAWSAccountID = [], acState = ''Pending'', acConditions = []\<rparr>"
       and state = "''Ready''"]
    ApplyState_conditions
      [where now = 1730001234 and unix = 1730001234
       and b = DefaultProjectClaimConfig
       and pc = "\<lparr>pcName = ''p1'', pcNamespace = ''ns'', pcLabels = Map.empty,
           GCPProjectID = [], pcState = ''Pending'',
           pcConditions = [\<lparr>condType = ''Old'', condStatus = ''True'', condReason = ''r'',
                            condMessage = ''m'', LastTransitionTime = 5, LastProbeTime = 5\<rparr>]\<rparr>"
       and state = "''Verification''"]
  by (simp add: DefaultClusterDeploymentConfig_def ClaimStatusPending_def
      ClaimStatusPendingProject_def ClaimStatusReady_def ClaimStatusError_def)

section \<open>The dependency checks\<close>

lemma checkAccountClaim_loop_no_match:
  "\<forall>x \<in> set items. label (acLabels x) ID \<noteq> clusterID \<Longrightarrow>
   checkAccountClaim_loop ID clusterID items = (False, 2 * Second)"
  by (induction items) auto

lemma checkAccountClaim_loop_first_match:
  "\<forall>x \<in> set pre. label (acLabels x) ID \<noteq> clusterID \<Longrightarrow>
   label (acLabels ac) ID = clusterID \<Longrightarrow>
   checkAccountClaim_loop ID clusterID (pre @ ac # post)
   = (if acState ac = ClaimStatusReady then (True, 0) else (False, 2 * Second))"
  by (induction pre) auto

lemma checkAccountClaim_loop_find:
  "checkAccountClaim_loop ID clusterID items =
     (case find (\<lambda>x. label (acLabels x) ID = clusterID) items of
        None \<Rightarrow> (False, 2 * Second)
      | Some ac \<Rightarrow> if acState ac = ClaimStatusReady then (True, 0) else (False, 2 * Second))"
  by (induction items) auto

lemma checkProjectClaim_loop_no_match:
  "\<forall>x \<in> set items. label (pcLabels x) ID \<noteq> clusterID \<Longrightarrow>
   checkProjectClaim_loop ID clusterID items = (False, 2 * Second)"
  by (induction items) auto

lemma checkProjectClaim_loop_first_match:
  "\<forall>x \<in> set pre. label (pcLabels x) ID \<noteq> clusterID \<Longrightarrow>
   label (pcLabels pc) ID = clusterID \<Longrightarrow>
   checkProjectClaim_loop ID clusterID (pre @ pc # post)
   = (if pcState pc = ClaimStatusReady then (True, 0) else (False, 2 * Second))"
  by (induction pre) auto

lemma checkProjectClaim_loop_find:
  "checkProjectClaim_loop ID clusterID items =
     (case find (\<lambda>x. label (pcLabels x) ID = clusterID) items of
        None \<Rightarrow> (False, 2 * Second)
      | Some pc \<Rightarrow> if pcState pc = ClaimStatusReady then (True, 0) else (False, 2 * Second))"
  by (induction items) auto

text \<open>
  C9. The claim: the dependency check returns ready with zero retry without the cluster-ID
  label, not ready with 5 seconds when listing fails, not ready with 2 seconds when no
  claim matches or the matching claim is not \<open>Ready\<close>, and ready exactly when a matching
  claim is in the state \<open>Ready\<close>. The loop over the listed claims returns at the first
  claim that carries the cluster ID and looks at no later one. With two claims of the
  cluster ID in the namespace, one in the state \<open>Pending\<close> listed before one in the state
  \<open>Ready\<close>, a matching claim is \<open>Ready\<close> and the check returns not ready with a retry
  of 2 seconds, for AccountClaims and for ProjectClaims.
\<close>

theorem checkClaim_dependency_counterexample:
  "label (acLabels
       \<lparr>acName = ''a2'', acNamespace = ''ns'',
        acLabels = [''api.openshift.com/id'' \<mapsto> ''abc''],
        BYOCAWSAccountID = [], acState = ''Ready'', acConditions = []\<rparr>)
     ''api.openshift.com/id'' = ''abc''
   \<and> acState
       \<lparr>acName = ''a2'', acNamespace = ''ns'',
        acLabels = [''api.openshift.com/id'' \<mapsto> ''abc''],
        BYOCAWSAccountID = [], acState = ''Ready'', acConditions = []\<rparr>
     = ClaimStatusReady
   \<and> checkAccountClaim ''api.openshift.com/id''
      (\<lambda>ns. Inr [\<lparr>acName = ''a1'', acNamespace = ''ns'',
                    acLabels = [''api.openshift.com/id'' \<mapsto> ''abc''],
                    BYOCAWSAccountID = [], acState = ''Pending'', acConditions = []\<rparr>,
                  \<lparr>acName = ''a2'', acNamespace = ''ns'',
                    acLabels = [''api.openshift.com/id'' \<mapsto> ''abc''],
                    BYOCAWSAccountID = [], acState = ''Ready'', acConditions = []\<rparr>])
      \<lparr>cdName = ''c1'', cdNamespace = ''ns'',
       cdLabels = [''api.openshift.com/id'' \<mapsto> ''abc''], Installed = False,
       cdClusterMetadata = None, cdConditions = [], ProvisionRef = None,
       WebConsoleURL = [], APIURL = [], InstalledTimestamp = None\<rparr>
     = (False, 2 * Second)
   \<and> label (pcLabels
       \<lparr>pcName = ''p2'', pcNamespace = ''ns'',
        pcLabels = [''api.openshift.com/id'' \<mapsto> ''abc''],
        GCPProjectID = [], pcState = ''Ready'', pcConditions = []\<rparr>)
     ''api.openshift.com/id'' = ''abc''
   \<and> pcState
       \<lparr>pcName = ''p2'', pcNamespace = ''ns'',
        pcLabels = [''api.openshift.com/id'' \<mapsto> ''abc''],
        GCPProjectID = [], pcState = ''Ready'', pcConditions = []\<rparr>
     = ClaimStatusReady
   \<and> checkProjectClaim ''api.openshift.com/id''
      (\<lambda>ns. Inr [\<lparr>pcName = ''p1'', pcNamespace = ''ns'',
                    pcLabels = [''api.openshift.com/id'' \<mapsto> ''abc''],
                    GCPProjectID = [], pcState = ''Pending'', pcConditions = []\<rparr>,
                  \<lparr>pcName = ''p2'', pcNamespace = ''ns'',
                    pcLabels = [''api.openshift.com/id'' \<mapsto> ''abc''],
                    GCPProjectID = [], pcState = ''Ready'', pcConditions = []\<rparr>])
      \<lparr>cdName = ''c1'', cdNamespace = ''ns'',
       cdLabels = [''api.openshift.com/id'' \<mapsto> ''abc''], Installed = False,
       cdClusterMetadata = None, cdConditions = [], ProvisionRef = None,
       WebConsoleURL = [], APIURL = [], InstalledTimestamp = None\<rparr>
     = (False, 2 * Second)
   \<and> fst (False, 2 * Second) \<noteq> True"
  by (simp add: checkAccountClaim_def checkProjectClaim_def label_def ClaimStatusReady_def)

text \<open>
  C9, amended. The dependency check of the ClusterDeployment reconciler, for AccountClaims
  and for ProjectClaims alike: without the cluster-ID label on the ClusterDeployment it returns
  ready with zero retry; when listing the claims of the namespace fails it returns
  not ready with a retry of 5 seconds and no error; when no listed claim carries the
  cluster ID it returns not ready with a retry of 2 seconds; otherwise the first listed
  claim that carries the cluster ID decides: ready with zero retry when its state is
  \<open>Ready\<close>, not ready with a retry of 2 seconds when it is not. So, with the label
  present and the list read, the check returns ready exactly when the first listed
  claim that matches is in the state \<open>Ready\<close>. A claim matches when its own cluster-ID
  label equals that of the ClusterDeployment, a missing label reading as the empty
  string.
\<close>

theorem checkClaim_dependency:
  "(cdLabels cd ID = None \<longrightarrow> checkAccountClaim ID alist cd = (True, 0))
   \<and> (cdLabels cd ID = Some clusterID \<and> alist (cdNamespace cd) = Inl err \<longrightarrow>
        checkAccountClaim ID alist cd = (False, 5 * Second))
   \<and> (cdLabels cd ID = Some clusterID \<and> alist (cdNamespace cd) = Inr aitems
        \<and> (\<forall>x \<in> set aitems. label (acLabels x) ID \<noteq> clusterID) \<longrightarrow>
        checkAccountClaim ID alist cd = (False, 2 * Second))
   \<and> (cdLabels cd ID = Some clusterID \<and> alist (cdNamespace cd) = Inr (apre @ ac # apost)
        \<and> (\<forall>x \<in> set apre. label (acLabels x) ID \<noteq> clusterID)
        \<and> label (acLabels ac) ID = clusterID \<longrightarrow>
        checkAccountClaim ID alist cd
        = (if acState ac = ClaimStatusReady then (True, 0) else (False, 2 * Second)))
   \<and> (cdLabels cd ID = Some clusterID \<and> alist (cdNamespace cd) = Inr aitems \<longrightarrow>
        (fst (checkAccountClaim ID alist cd) \<longleftrightarrow>
           (\<exists>x. find (\<lambda>x. label (acLabels x) ID = clusterID) aitems = Some x
                \<and> acState x = ClaimStatusReady)))
   \<and> (cdLabels cd ID = None \<longrightarrow> checkProjectClaim ID plist cd = (True, 0))
   \<and> (cdLabels cd ID = Some clusterID \<and> plist (cdNamespace cd) = Inl err \<longrightarrow>
        checkProjectClaim ID plist cd = (False, 5 * Second))
   \<and> (cdLabels cd ID = Some clusterID \<and> plist (cdNamespace cd) = Inr pitems
        \<and> (\<forall>x \<in> set pitems. label (pcLabels x) ID \<noteq> clusterID) \<longrightarrow>
        checkProjectClaim ID plist cd = (False, 2 * Second))
   \<and> (cdLabels cd ID = Some clusterID \<and> plist (cdNamespace cd) = Inr (ppre @ pc # ppost)
        \<and> (\<forall>x \<in> set ppre. label (pcLabels x) ID \<noteq> clusterID)
        \<and> label (pcLabels pc) ID = clusterID \<longrightarrow>
        checkProjectClaim ID plist cd
        = (if pcState pc = ClaimStatusReady then (True, 0) else (False, 2 * Second)))
   \<and> (cdLabels cd ID = Some clusterID \<and> plist (cdNamespace cd) = Inr pitems \<longrightarrow>
        (fst (checkProjectClaim ID plist cd) \<longleftrightarrow>
           (\<exists>x. find (\<lambda>x. label (pcLabels x) ID = clusterID) pitems = Some x
                \<and> pcState x = ClaimStatusReady)))"
proof -
  have a: "cdLabels cd ID = Some clusterID \<and> alist (cdNamespace cd) = Inr aitems \<longrightarrow>
        (fst (checkAccountClaim ID alist cd) \<longleftrightarrow>
           (\<exists>x. find (\<lambda>x. label (acLabels x) ID = clusterID) aitems = Some x
                \<and> acState x = ClaimStatusReady))"
    by (simp add: checkAccountClaim_def checkAccountClaim_loop_find split: option.split)
  have p: "cdLabels cd ID = Some clusterID \<and> plist (cdNamespace cd) = Inr pitems \<longrightarrow>
        (fst (checkProjectClaim ID plist cd) \<longleftrightarrow>
           (\<exists>x. find (\<lambda>x. label (pcLabels x) ID = clusterID) pitems = Some x
                \<and> pcState x = ClaimStatusReady))"
    by (simp add: checkProjectClaim_def checkProjectClaim_loop_find split: option.split)
  have rest: "(cdLabels cd ID = None \<longrightarrow> checkAccountClaim ID alist cd = (True, 0))
   \<and> (cdLabels cd ID = Some clusterID \<and> alist (cdNamespace cd) = Inl err \<longrightarrow>
        checkAccountClaim ID alist cd = (False, 5 * Second))
   \<and> (cdLabels cd ID = Some clusterID \<and> alist (cdNamespace cd) = Inr aitems
        \<and> (\<forall>x \<in> set aitems. label (acLabels x) ID \<noteq> clusterID) \<longrightarrow>
        checkAccountClaim ID alist cd = (False, 2 * Second))
   \<and> (cdLabels cd ID = Some clusterID \<and> alist (cdNamespace cd) = Inr (apre @ ac # apost)
        \<and> (\<forall>x \<in> set apre. label (acLabels x) ID \<noteq> clusterID)
        \<and> label (acLabels ac) ID = clusterID \<longrightarrow>
        checkAccountClaim ID alist cd
        = (if acState ac = ClaimStatusReady then (True, 0) else (False, 2 * Second)))
   \<and> (cdLabels cd ID = None \<longrightarrow> checkProjectClaim ID plist cd = (True, 0))
   \<and> (cdLabels cd ID = Some clusterID \<and> plist (cdNamespace cd) = Inl err \<longrightarrow>
        checkProjectClaim ID plist cd = (False, 5 * Second))
   \<and> (cdLabels cd ID = Some clusterID \<and> plist (cdNamespace cd) = Inr pitems
        \<and> (\<forall>x \<in> set pitems. label (pcLabels x) ID \<noteq> clusterID) \<longrightarrow>
        checkProjectClaim ID plist cd = (False, 2 * Second))
   \<and> (cdLabels cd ID = Some clusterID \<and> plist (cdNamespace cd) = Inr (ppre @ pc # ppost)
        \<and> (\<forall>x \<in> set ppre. label (pcLabels x) ID \<noteq> clusterID)
        \<and> label (pcLabels pc) ID = clusterID \<longrightarrow>
        checkProjectClaim ID plist cd
        = (if pcState pc = ClaimStatusReady then (True, 0) else (False, 2 * Second)))"
    by (simp add: checkAccountClaim_def checkProjectClaim_def
        checkAccountClaim_loop_no_match checkAccountClaim_loop_first_match
        checkProjectClaim_loop_no_match checkProjectClaim_loop_first_match)
  from a p rest show ?thesis by blast
qed

theorem checkClaim_dependency_witness:
  "checkAccountClaim ''api.openshift.com/id'' (\<lambda>ns. Inl StoreUnavailable)
      \<lparr>cdName = ''c1'', cdNamespace = ''ns'', cdLabels = Map.empty, Installed = False,
       cdClusterMetadata = None, cdConditions = [], ProvisionRef = None,
       WebConsoleURL = [], APIURL = [], InstalledTimestamp = None\<rparr>
     = (True, 0)
   \<and> checkAccountClaim ''api.openshift.com/id'' (\<lambda>ns. Inl StoreUnavailable)
      \<lparr>cdName = ''c1'', cdNamespace = ''ns'',
       cdLabels = [''api.openshift.com/id'' \<mapsto> ''abc''], Installed = False,
       cdClusterMetadata = None, cdConditions = [], ProvisionRef = None,
       WebConsoleURL = [], APIURL = [], InstalledTimestamp = None\<rparr>
     = (False, 5 * Second)
   \<and> checkAccountClaim ''api.openshift.com/id''
      (\<lambda>ns. Inr [\<lparr>acName = ''a0'', acNamespace = ''ns'',
                    acLabels = [''api.openshift.com/id'' \<mapsto> ''xyz''],
                    BYOCAWSAccountID = [], acState = ''Ready'', acConditions = []\<rparr>])
      \<lparr>cdName = ''c1'', cdNamespace = ''ns'',
       cdLabels = [''api.openshift.com/id'' \<mapsto> ''abc''], Installed = False,
       cdClusterMetadata = None, cdConditions = [], ProvisionRef = None,
       WebConsoleURL = [], APIURL = [], InstalledTimestamp = None\<rparr>
     = (False, 2 * Second)
   \<and> checkAccountClaim ''api.openshift.com/id''
      (\<lambda>ns. Inr [\<lparr>acName = ''a0'', acNamespace = ''ns'',
                    acLabels = [''api.openshift.com/id'' \<mapsto> ''xyz''],
                    BYOCAWSAccountID = [], acState = ''Ready'', acConditions = []\<rparr>,
                  \<lparr>acName = ''a1'', acNamespace = ''ns'',
                    acLabels = [''api.openshift.com/id'' \<mapsto> ''abc''],
                    BYOCAWSAccountID = [], acState = ''Pending'', acConditions = []\<rparr>])
      \<lparr>cdName = ''c1'', cdNamespace = ''ns'',
       cdLabels = [''api.openshift.com/id'' \<mapsto> ''abc''], Installed = False,
       cdClusterMetadata = None, cdConditions = [], ProvisionRef = None,
       WebConsoleURL = [], APIURL = [], InstalledTimestamp = None\<rparr>
     = (False, 2 * Second)
   \<and> checkProjectClaim ''api.openshift.com/id''
      (\<lambda>ns. Inr [\<lparr>pcName = ''p0'', pcNamespace = ''ns'',
                    pcLabels = [''api.openshift.com/id'' \<mapsto> ''xyz''],
                    GCPProjectID = [], pcState = ''Pending'', pcConditions = []\<rparr>,
                  \<lparr>pcName = ''p1'', pcNamespace = ''ns'',
                    pcLabels = [''api.openshift.com/id'' \<mapsto> ''abc''],
                    GCPProjectID = [], pcState = ''Ready'', pcConditions = []\<rparr>])
      \<lparr>cdName = ''c1'', cdNamespace = ''ns'',
       cdLabels = [''api.openshift.com/id'' \<mapsto> ''abc''], Installed = False,
       cdClusterMetadata = None, cdConditions = [], ProvisionRef = None,
       WebConsoleURL = [], APIURL = [], InstalledTimestamp = None\<rparr>
     = (True, 0)"
  using
    checkClaim_dependency
      [where ID = "''api.openshift.com/id''" and alist = "\<lambda>ns. Inl StoreUnavailable"
       and cd = "\<lparr>cdName = ''c1'', cdNamespace = ''ns'', cdLabels = Map.empty,
         Installed = False, cdClusterMetadata = None, cdConditions = [], ProvisionRef = None,
         WebConsoleURL = [], APIURL = [], InstalledTimestamp = None\<rparr>"]
    checkClaim_dependency
      [where ID = "''api.openshift.com/id''" and alist = "\<lambda>ns. Inl StoreUnavailable"
       and clusterID = "''abc''" and err = StoreUnavailable
       and cd = "\<lparr>cdName = ''c1'', cdNamespace = ''ns'',
         cdLabels = [''api.openshift.com/id'' \<mapsto> ''abc''], Installed = False,
         cdClusterMetadata = None, cdConditions = [], ProvisionRef = None,
         WebConsoleURL = [], APIURL = [], InstalledTimestamp = None\<rparr>"]
    checkClaim_dependency
      [where ID = "''api.openshift.com/id''"
       and alist = "\<lambda>ns. Inr [\<lparr>acName = ''a0'', acNamespace = ''ns'',
                    acLabels = [''api.openshift.com/id'' \<mapsto> ''xyz''],
                    BYOCAWSAccountID = [], acState = ''Ready'', acConditions = []\<rparr>]"
       and aitems = "[\<lparr>acName = ''a0'', acNamespace = ''ns'',
                    acLabels = [''api.openshift.com/id'' \<mapsto> ''xyz''],
                    BYOCAWSAccountID = [], acState = ''Ready'', acConditions = []\<rparr>]"
       and clusterID = "''abc''"
       and cd = "\<lparr>cdName = ''c1'', cdNamespace = ''ns'',
         cdLabels = [''api.openshift.com/id'' \<mapsto> ''abc''], Installed = False,
         cdClusterMetadata = None, cdConditions = [], ProvisionRef = None,
         WebConsoleURL = [], APIURL = [], InstalledTimestamp = None\<rparr>"]
    checkClaim_dependency
      [where ID = "''api.openshift.com/id''"
       and alist = "\<lambda>ns. Inr [\<lparr>acName = ''a0'', acNamespace = ''ns'',
                    acLabels = [''api.openshift.com/id'' \<mapsto> ''xyz''],
                    BYOCAWSAccountID = [], acState = ''Ready'', acConditions = []\<rparr>,
                  \<lparr>acName = ''a1'', acNamespace = ''ns'',
                    acLabels = [''api.openshift.com/id'' \<mapsto> ''abc''],
                    BYOCAWSAccountID = [], acState = ''Pending'', acConditions = []\<rparr>]"
       and apre = "[\<lparr>acName = ''a0'', acNamespace = ''ns'',
                    acLabels = [''api.openshift.com/id'' \<mapsto> ''xyz''],
                    BYOCAWSAccountID = [], acState = ''Ready'', acConditions = []\<rparr>]"
       and ac = "\<lparr>acName = ''a1'', acNamespace = ''ns'',
                    acLabels = [''api.openshift.com/id'' \<mapsto> ''abc''],
                    BYOCAWSAccountID = [], acState = ''Pending'', acConditions = []\<rparr>"
       and apost = "[]"
       and plist = "\<lambda>ns. Inr [\<lparr>pcName = ''p0'', pcNamespace = ''ns'',
                    pcLabels = [''api.openshift.com/id'' \<mapsto> ''xyz''],
                    GCPProjectID = [], pcState = ''Pending'', pcConditions = []\<rparr>,
                  \<lparr>pcName = ''p1'', pcNamespace = ''ns'',
                    pcLabels = [''api.openshift.com/id'' \<mapsto> ''abc''],
                    GCPProjectID = [], pcState = ''Ready'', pcConditions = []\<rparr>]"
       and ppre = "[\<lparr>pcName = ''p0'', pcNamespace = ''ns'',
                    pcLabels = [''api.openshift.com/id'' \<mapsto> ''xyz''],
                    GCPProjectID = [], pcState = ''Pending'', pcConditions = []\<rparr>]"
       and pc = "\<lparr>pcName = ''p1'', pcNamespace = ''ns'',
                    pcLabels = [''api.openshift.com/id'' \<mapsto> ''abc''],
                    GCPProjectID = [], pcState = ''Ready'', pcConditions = []\<rparr>"
       and ppost = "[]"
       and clusterID = "''abc''"
       and cd = "\<lparr>cdName = ''c1'', cdNamespace = ''ns'',
         cdLabels = [''api.openshift.com/id'' \<mapsto> ''abc''], Installed = False,
         cdClusterMetadata = None, cdConditions = [], ProvisionRef = None,
         WebConsoleURL = [], APIURL = [], InstalledTimestamp = None\<rparr>"]
  by (simp add: label_def ClaimStatusReady_def)

end
